theory Spec2Isabelle
  imports Complex_Main
begin

section \<open>Python values, errors and the list and array operations the loaders use\<close>

text \<open>
  The module \<^verbatim>\<open>property_prediction/data_utils.py\<close> has five loaders, which read a
  table and cut fixed row positions out of two of its columns, and one function
  \<^verbatim>\<open>transform_data\<close>, which standardises features and targets. Every exception the
  loaders can raise is a value of \<open>py_error\<close>; a function that can raise returns
  \<open>py_error + 'a\<close>, with \<open>Inl\<close> for the exception.
\<close>

datatype py_error = FileNotFoundError | ParserError | KeyError | ValueError | IndexError

definition err_bind :: "py_error + 'a \<Rightarrow> ('a \<Rightarrow> py_error + 'b) \<Rightarrow> py_error + 'b" where
  "err_bind r f = (case r of Inl e \<Rightarrow> Inl e | Inr x \<Rightarrow> f x)"

text \<open>
  A cell of a column is a Python object: a \<^verbatim>\<open>str\<close>, or a number of the property
  columns (a float, \<^verbatim>\<open>nan\<close> included). The loaders never compute with the numbers,
  so their type is a parameter.
\<close>

datatype 'v cell = Str string | Val 'v

text \<open>
  A \<^verbatim>\<open>DataFrame\<close> maps a column name to the column; \<^verbatim>\<open>df[name]\<close> raises
  \<^verbatim>\<open>KeyError\<close> for a name that is not a column. \<^verbatim>\<open>to_list()\<close> and
  \<^verbatim>\<open>to_numpy()\<close> give the column's cells in row order, here the list itself.
\<close>

type_synonym 'v frame = "string \<rightharpoonup> 'v cell list"

definition getitem :: "'v frame \<Rightarrow> string \<Rightarrow> py_error + 'v cell list" where
  "getitem df name = (case df name of None \<Rightarrow> Inl KeyError | Some col \<Rightarrow> Inr col)"

text \<open>
  \<^verbatim>\<open>pd.read_csv(path)\<close> reads the file at \<open>path\<close> and parses it. The file system is
  a map from paths to file contents, and pandas' parser is a parameter \<open>parse\<close> of
  the model: the loaders only use the frame it returns.
\<close>

type_synonym filesystem = "string \<rightharpoonup> string"

definition read_csv ::
  "(string \<Rightarrow> py_error + 'v frame) \<Rightarrow> filesystem \<Rightarrow> string \<Rightarrow> py_error + 'v frame" where
  "read_csv parse fs path =
     (case fs path of None \<Rightarrow> Inl FileNotFoundError | Some contents \<Rightarrow> parse contents)"

text \<open>
  Python's slices \<^verbatim>\<open>xs[a:b]\<close> and \<^verbatim>\<open>xs[a:]\<close> with literal bounds that are not
  negative never raise: they clip to the list. \<^verbatim>\<open>xs[i]\<close> raises \<^verbatim>\<open>IndexError\<close>
  out of range.
\<close>

definition py_slice :: "'a list \<Rightarrow> nat \<Rightarrow> nat \<Rightarrow> 'a list" where
  "py_slice xs a b = drop a (take b xs)"

definition py_slice_from :: "'a list \<Rightarrow> nat \<Rightarrow> 'a list" where
  "py_slice_from xs a = drop a xs"

definition py_index :: "'a list \<Rightarrow> nat \<Rightarrow> py_error + 'a" where
  "py_index xs i = (if i < length xs then Inr (xs ! i) else Inl IndexError)"

text \<open>
  \<^verbatim>\<open>list.remove(x)\<close> walks the list from the front, deletes the first element equal
  to \<open>x\<close> and stops; it raises \<^verbatim>\<open>ValueError\<close> when no element is equal to \<open>x\<close>.
\<close>

fun list_remove :: "'a \<Rightarrow> 'a list \<Rightarrow> py_error + 'a list" where
  "list_remove x [] = Inl ValueError"
| "list_remove x (y # ys) =
     (if y = x then Inr ys
      else (case list_remove x ys of Inl e \<Rightarrow> Inl e | Inr zs \<Rightarrow> Inr (y # zs)))"

text \<open>
  \<^verbatim>\<open>np.arange(a, b, 1)\<close> is the array of the integers from \<open>a\<close> up to \<open>b - 1\<close>.
  \<^verbatim>\<open>np.delete(arr, i)\<close> with one integer joins the part before position \<open>i\<close> and the
  part after it; \<^verbatim>\<open>np.delete(arr, obj)\<close> with an array of positions builds a mask
  that is false at those positions and keeps the elements where the mask is true.
  Both raise \<^verbatim>\<open>IndexError\<close> for a position that is out of bounds. Every position in
  the source is a literal that is not negative, so positions are naturals.
\<close>

definition arange :: "nat \<Rightarrow> nat \<Rightarrow> nat list" where
  "arange a b = [a..<b]"

definition np_delete1 :: "'a list \<Rightarrow> nat \<Rightarrow> py_error + 'a list" where
  "np_delete1 arr i =
     (if i < length arr then Inr (take i arr @ drop (Suc i) arr) else Inl IndexError)"

definition np_delete :: "'a list \<Rightarrow> nat list \<Rightarrow> py_error + 'a list" where
  "np_delete arr obj =
     (if list_ex (\<lambda>i. length arr \<le> i) obj then Inl IndexError
      else Inr (map fst (filter (\<lambda>p. snd p \<notin> set obj) (zip arr [0..<length arr]))))"

section \<open>The five loaders\<close>

definition SMILES_literal :: string where
  "SMILES_literal = ''C12=CC=CC=C1CCC3=CC=CC=C3/N=N'' @ [CHR 0x5C] @ ''2''"

definition load_thermal_data ::
  "(string \<Rightarrow> py_error + 'v frame) \<Rightarrow> filesystem \<Rightarrow> string
     \<Rightarrow> py_error + ('v cell list \<times> 'v cell list)" where
  "load_thermal_data parse fs path =
     err_bind (read_csv parse fs path) (\<lambda>df.
     err_bind (getitem df ''SMILES'') (\<lambda>smiles_list.
     err_bind (getitem df ''rate of thermal isomerisation from Z-E in s-1'') (\<lambda>thermal_vals.
     Inr (py_slice smiles_list 0 65, py_slice thermal_vals 0 65))))"

definition load_e_iso_pi_data ::
  "(string \<Rightarrow> py_error + 'v frame) \<Rightarrow> filesystem \<Rightarrow> string
     \<Rightarrow> py_error + ('v cell list \<times> 'v cell list)" where
  "load_e_iso_pi_data parse fs path =
     err_bind (read_csv parse fs path) (\<lambda>df.
     err_bind (getitem df ''SMILES'') (\<lambda>smiles_list0.
     err_bind (list_remove (Str SMILES_literal) smiles_list0) (\<lambda>smiles_list.
     err_bind (getitem df ''E isomer pi-pi* wavelength in nm'') (\<lambda>e_iso_pi_vals0.
     err_bind (np_delete1 e_iso_pi_vals0 31) (\<lambda>e_iso_pi_vals.
     Inr (smiles_list, e_iso_pi_vals))))))"

definition load_e_iso_n_data ::
  "(string \<Rightarrow> py_error + 'v frame) \<Rightarrow> filesystem \<Rightarrow> string
     \<Rightarrow> py_error + ('v cell list \<times> 'v cell list)" where
  "load_e_iso_n_data parse fs path =
     err_bind (read_csv parse fs path) (\<lambda>df.
     err_bind (getitem df ''SMILES'') (\<lambda>smiles_list0.
     let smiles_list = py_slice smiles_list0 0 14 @ py_slice smiles_list0 15 38
                         @ py_slice_from smiles_list0 39 in
     err_bind (getitem df ''E isomer n-pi* wavelength in nm'') (\<lambda>e_iso_n_vals0.
     err_bind (np_delete e_iso_n_vals0 [14, 38]) (\<lambda>e_iso_n_vals.
     Inr (smiles_list, e_iso_n_vals)))))"

definition load_z_iso_pi_data ::
  "(string \<Rightarrow> py_error + 'v frame) \<Rightarrow> filesystem \<Rightarrow> string
     \<Rightarrow> py_error + ('v cell list \<times> 'v cell list)" where
  "load_z_iso_pi_data parse fs path =
     err_bind (read_csv parse fs path) (\<lambda>df.
     err_bind (getitem df ''SMILES'') (\<lambda>smiles_list0.
     err_bind (py_index smiles_list0 26) (\<lambda>s26.
     err_bind (py_index smiles_list0 33) (\<lambda>s33.
     err_bind (py_index smiles_list0 37) (\<lambda>s37.
     let smiles_list = py_slice smiles_list0 0 12 @ py_slice smiles_list0 15 25 @ [s26]
                         @ py_slice smiles_list0 28 31 @ [s33] @ [s37]
                         @ py_slice_from smiles_list0 42 in
     err_bind (getitem df ''Z isomer pi-pi* wavelength in nm'') (\<lambda>z_iso_pi_vals0.
     let selection1 = arange 34 37 @ arange 38 42;
         selection2 = arange 31 33 @ selection1;
         selection3 = [27] @ selection2;
         selection4 = [25] @ selection3;
         selection = arange 12 15 @ selection4 in
     err_bind (np_delete z_iso_pi_vals0 selection) (\<lambda>z_iso_pi_vals.
     Inr (smiles_list, z_iso_pi_vals))))))))"

definition load_z_iso_n_data ::
  "(string \<Rightarrow> py_error + 'v frame) \<Rightarrow> filesystem \<Rightarrow> string
     \<Rightarrow> py_error + ('v cell list \<times> 'v cell list)" where
  "load_z_iso_n_data parse fs path =
     err_bind (read_csv parse fs path) (\<lambda>df.
     err_bind (getitem df ''SMILES'') (\<lambda>smiles_list0.
     let smiles_list = py_slice smiles_list0 0 12 @ py_slice smiles_list0 15 32
                         @ py_slice smiles_list0 33 41 @ py_slice_from smiles_list0 42 in
     err_bind (getitem df ''Z isomer n-pi* wavelength in nm'') (\<lambda>z_iso_n_vals0.
     err_bind (np_delete z_iso_n_vals0 [12, 13, 14, 32, 41]) (\<lambda>z_iso_n_vals.
     Inr (smiles_list, z_iso_n_vals)))))"

section \<open>The loaders as programs on a store\<close>

text \<open>
  What a call can leave behind is written out here. The world of a call is the file
  system and a store of the Python objects that exist: frames, lists and arrays, each at
  an address, which is its position in the store. A new object goes to the end of the
  store. A program takes a world and gives its result, a value or the exception raised,
  with the world it leaves; what a program did before it raised stays done.
\<close>

type_synonym addr = nat

datatype 'v obj = Frame "'v frame" | PyList "'v cell list" | NdArray "'v cell list"

record 'v world =
  files :: filesystem
  heap :: "'v obj list"

type_synonym ('v, 'a) prog = "'v world \<Rightarrow> (py_error + 'a) \<times> 'v world"

definition st_bind :: "('v, 'a) prog \<Rightarrow> ('a \<Rightarrow> ('v, 'b) prog) \<Rightarrow> ('v, 'b) prog" where
  "st_bind m f w = (case m w of (Inl e, w') \<Rightarrow> (Inl e, w') | (Inr x, w') \<Rightarrow> f x w')"

definition st_return :: "'a \<Rightarrow> ('v, 'a) prog" where
  "st_return x w = (Inr x, w)"

definition alloc :: "'v obj \<Rightarrow> ('v, addr) prog" where
  "alloc ob w = (Inr (length (heap w)), w\<lparr>heap := heap w @ [ob]\<rparr>)"

definition the_obj :: "'v world \<Rightarrow> addr \<Rightarrow> 'v obj option" where
  "the_obj w a = (if a < length (heap w) then Some (heap w ! a) else None)"

definition frame_at :: "'v world \<Rightarrow> addr \<Rightarrow> 'v frame" where
  "frame_at w a = (case the_obj w a of Some (Frame df) \<Rightarrow> df | _ \<Rightarrow> Map.empty)"

definition list_at :: "'v world \<Rightarrow> addr \<Rightarrow> 'v cell list" where
  "list_at w a = (case the_obj w a of Some (PyList xs) \<Rightarrow> xs | _ \<Rightarrow> [])"

definition array_at :: "'v world \<Rightarrow> addr \<Rightarrow> 'v cell list" where
  "array_at w a = (case the_obj w a of Some (NdArray xs) \<Rightarrow> xs | _ \<Rightarrow> [])"

text \<open>
  \<^verbatim>\<open>pd.read_csv\<close> builds a new frame on every call, \<^verbatim>\<open>to_list()\<close> a new list and
  \<^verbatim>\<open>to_numpy()\<close> an array; \<^verbatim>\<open>list.remove\<close> changes the list object it is called on,
  in place. A slice or a sum of lists is a new list, and \<^verbatim>\<open>np.delete\<close> gives a new
  array. An array from \<^verbatim>\<open>to_numpy()\<close> or from slicing an array may share its memory
  with the object it comes from; the loaders write to no array, so each is an object of
  its own here. Pandas' parser stays the parameter \<open>parse\<close>, a function of the file
  contents.
\<close>

definition pd_read_csv :: "(string \<Rightarrow> py_error + 'v frame) \<Rightarrow> string \<Rightarrow> ('v, addr) prog" where
  "pd_read_csv parse path w =
     (case read_csv parse (files w) path of
        Inl e \<Rightarrow> (Inl e, w)
      | Inr df \<Rightarrow> alloc (Frame df) w)"

definition series_to_list :: "addr \<Rightarrow> string \<Rightarrow> ('v, addr) prog" where
  "series_to_list df name w =
     (case getitem (frame_at w df) name of
        Inl e \<Rightarrow> (Inl e, w)
      | Inr col \<Rightarrow> alloc (PyList col) w)"

definition series_to_numpy :: "addr \<Rightarrow> string \<Rightarrow> ('v, addr) prog" where
  "series_to_numpy df name w =
     (case getitem (frame_at w df) name of
        Inl e \<Rightarrow> (Inl e, w)
      | Inr col \<Rightarrow> alloc (NdArray col) w)"

definition list_remove_at :: "addr \<Rightarrow> 'v cell \<Rightarrow> ('v, unit) prog" where
  "list_remove_at a x w =
     (case list_remove x (list_at w a) of
        Inl e \<Rightarrow> (Inl e, w)
      | Inr ys \<Rightarrow> (Inr (), w\<lparr>heap := (heap w)[a := PyList ys]\<rparr>))"

definition new_list :: "addr \<Rightarrow> ('v cell list \<Rightarrow> py_error + 'v cell list) \<Rightarrow> ('v, addr) prog" where
  "new_list a f w =
     (case f (list_at w a) of
        Inl e \<Rightarrow> (Inl e, w)
      | Inr ys \<Rightarrow> alloc (PyList ys) w)"

definition new_array :: "addr \<Rightarrow> ('v cell list \<Rightarrow> py_error + 'v cell list) \<Rightarrow> ('v, addr) prog" where
  "new_array a f w =
     (case f (array_at w a) of
        Inl e \<Rightarrow> (Inl e, w)
      | Inr ys \<Rightarrow> alloc (NdArray ys) w)"

text \<open>
  The five loaders again, statement by statement, with every name bound to the address
  of its object. A loader returns the addresses of the identifier list and of the target
  array.
\<close>

definition load_thermal_data_st ::
  "(string \<Rightarrow> py_error + 'v frame) \<Rightarrow> string \<Rightarrow> ('v, addr \<times> addr) prog" where
  "load_thermal_data_st parse path =
     st_bind (pd_read_csv parse path) (\<lambda>df.
     st_bind (series_to_list df ''SMILES'') (\<lambda>smiles_list0.
     st_bind (series_to_numpy df ''rate of thermal isomerisation from Z-E in s-1'') (\<lambda>thermal_vals0.
     st_bind (new_list smiles_list0 (\<lambda>xs. Inr (py_slice xs 0 65))) (\<lambda>smiles_list.
     st_bind (new_array thermal_vals0 (\<lambda>xs. Inr (py_slice xs 0 65))) (\<lambda>thermal_vals.
     st_return (smiles_list, thermal_vals))))))"

definition load_e_iso_pi_data_st ::
  "(string \<Rightarrow> py_error + 'v frame) \<Rightarrow> string \<Rightarrow> ('v, addr \<times> addr) prog" where
  "load_e_iso_pi_data_st parse path =
     st_bind (pd_read_csv parse path) (\<lambda>df.
     st_bind (series_to_list df ''SMILES'') (\<lambda>smiles_list.
     st_bind (list_remove_at smiles_list (Str SMILES_literal)) (\<lambda>_.
     st_bind (series_to_numpy df ''E isomer pi-pi* wavelength in nm'') (\<lambda>e_iso_pi_vals0.
     st_bind (new_array e_iso_pi_vals0 (\<lambda>xs. np_delete1 xs 31)) (\<lambda>e_iso_pi_vals.
     st_return (smiles_list, e_iso_pi_vals))))))"

definition load_e_iso_n_data_st ::
  "(string \<Rightarrow> py_error + 'v frame) \<Rightarrow> string \<Rightarrow> ('v, addr \<times> addr) prog" where
  "load_e_iso_n_data_st parse path =
     st_bind (pd_read_csv parse path) (\<lambda>df.
     st_bind (series_to_list df ''SMILES'') (\<lambda>smiles_list0.
     st_bind (new_list smiles_list0
        (\<lambda>xs. Inr (py_slice xs 0 14 @ py_slice xs 15 38 @ py_slice_from xs 39))) (\<lambda>smiles_list.
     st_bind (series_to_numpy df ''E isomer n-pi* wavelength in nm'') (\<lambda>e_iso_n_vals0.
     st_bind (new_array e_iso_n_vals0 (\<lambda>xs. np_delete xs [14, 38])) (\<lambda>e_iso_n_vals.
     st_return (smiles_list, e_iso_n_vals))))))"

definition load_z_iso_pi_data_st ::
  "(string \<Rightarrow> py_error + 'v frame) \<Rightarrow> string \<Rightarrow> ('v, addr \<times> addr) prog" where
  "load_z_iso_pi_data_st parse path =
     st_bind (pd_read_csv parse path) (\<lambda>df.
     st_bind (series_to_list df ''SMILES'') (\<lambda>smiles_list0.
     st_bind (new_list smiles_list0
        (\<lambda>xs. err_bind (py_index xs 26) (\<lambda>s26.
              err_bind (py_index xs 33) (\<lambda>s33.
              err_bind (py_index xs 37) (\<lambda>s37.
              Inr (py_slice xs 0 12 @ py_slice xs 15 25 @ [s26] @ py_slice xs 28 31 @ [s33]
                     @ [s37] @ py_slice_from xs 42)))))) (\<lambda>smiles_list.
     st_bind (series_to_numpy df ''Z isomer pi-pi* wavelength in nm'') (\<lambda>z_iso_pi_vals0.
     let selection1 = arange 34 37 @ arange 38 42;
         selection2 = arange 31 33 @ selection1;
         selection3 = [27] @ selection2;
         selection4 = [25] @ selection3;
         selection = arange 12 15 @ selection4 in
     st_bind (new_array z_iso_pi_vals0 (\<lambda>xs. np_delete xs selection)) (\<lambda>z_iso_pi_vals.
     st_return (smiles_list, z_iso_pi_vals))))))"

definition load_z_iso_n_data_st ::
  "(string \<Rightarrow> py_error + 'v frame) \<Rightarrow> string \<Rightarrow> ('v, addr \<times> addr) prog" where
  "load_z_iso_n_data_st parse path =
     st_bind (pd_read_csv parse path) (\<lambda>df.
     st_bind (series_to_list df ''SMILES'') (\<lambda>smiles_list0.
     st_bind (new_list smiles_list0
        (\<lambda>xs. Inr (py_slice xs 0 12 @ py_slice xs 15 32 @ py_slice xs 33 41
                    @ py_slice_from xs 42))) (\<lambda>smiles_list.
     st_bind (series_to_numpy df ''Z isomer n-pi* wavelength in nm'') (\<lambda>z_iso_n_vals0.
     st_bind (new_array z_iso_n_vals0 (\<lambda>xs. np_delete xs [12, 13, 14, 32, 41])) (\<lambda>z_iso_n_vals.
     st_return (smiles_list, z_iso_n_vals))))))"

text \<open>
  \<open>returned\<close> is what the caller of a loader sees: the exception, or the contents of the
  two objects returned, read in the world the call leaves. \<open>world_after\<close> is that world.
\<close>

definition returned ::
  "(string \<Rightarrow> ('v, addr \<times> addr) prog) \<Rightarrow> string \<Rightarrow> 'v world
     \<Rightarrow> py_error + ('v cell list \<times> 'v cell list)" where
  "returned load path w =
     (case load path w of
        (Inl e, w') \<Rightarrow> Inl e
      | (Inr (a, b), w') \<Rightarrow> Inr (list_at w' a, array_at w' b))"

definition world_after :: "(string \<Rightarrow> ('v, addr \<times> addr) prog) \<Rightarrow> string \<Rightarrow> 'v world \<Rightarrow> 'v world" where
  "world_after load path w = snd (load path w)"

section \<open>Standardisation and \<^verbatim>\<open>transform_data\<close>\<close>

text \<open>
  A one-dimensional array of numbers is a list of reals and a two-dimensional array is the
  list of its rows; a numpy array is rectangular, so all rows of a matrix have one length.
  The numbers are reals: the model computes in exact arithmetic, where the program
  computes in floating point. \<^verbatim>\<open>y.reshape(-1, 1)\<close> turns a vector into the matrix with
  one column and one row for each element.
\<close>

type_synonym matrix = "real list list"

definition reshape_column :: "real list \<Rightarrow> matrix" where
  "reshape_column y = map (\<lambda>v. [v]) y"

definition n_features :: "matrix \<Rightarrow> nat" where
  "n_features X = (case X of [] \<Rightarrow> 0 | row # _ \<Rightarrow> length row)"

definition column :: "matrix \<Rightarrow> nat \<Rightarrow> real list" where
  "column X j = map (\<lambda>row. row ! j) X"

definition mean :: "real list \<Rightarrow> real" where
  "mean xs = sum_list xs / real (length xs)"

definition std :: "real list \<Rightarrow> real" where
  "std xs = sqrt (mean (map (\<lambda>x. (x - mean xs) ^ 2) xs))"

text \<open>
  Modelled from the spec: the class \<^verbatim>\<open>StandardScaler\<close> of scikit-learn, which
  \<^verbatim>\<open>transform_data\<close> instantiates twice, is not in the repository. The spec describes a
  scaler as a fitted affine transform, the per-column mean and standard deviation of the
  matrix it is fitted on, which rescales a column to zero mean and unit standard
  deviation; its inverse maps scaled values back to the original scale. The fields
  \<^verbatim>\<open>mean_\<close> and \<^verbatim>\<open>scale_\<close> are \<open>scaler_mean\<close> and \<open>scaler_scale\<close> here. Where the
  transform has no meaning the library raises \<^verbatim>\<open>ValueError\<close> and so does the model:
  fitting on a matrix with no row, which has no column mean, and transforming a row whose
  width is not the fitted one. The spec says nothing of a column with standard deviation
  zero, where the quotient is not defined; no theorem below uses the quotient there.
\<close>

record scaler =
  scaler_mean :: "real list"
  scaler_scale :: "real list"

definition StandardScaler_fit :: "matrix \<Rightarrow> py_error + scaler" where
  "StandardScaler_fit X =
     (if X = [] then Inl ValueError
      else Inr \<lparr>scaler_mean = map (\<lambda>j. mean (column X j)) [0..<n_features X],
                scaler_scale = map (\<lambda>j. std (column X j)) [0..<n_features X]\<rparr>)"

definition StandardScaler_transform :: "scaler \<Rightarrow> matrix \<Rightarrow> py_error + matrix" where
  "StandardScaler_transform s X =
     (if list_ex (\<lambda>row. length row \<noteq> length (scaler_mean s)) X then Inl ValueError
      else Inr (map (\<lambda>row. map (\<lambda>(x, m, sd). (x - m) / sd)
                              (zip row (zip (scaler_mean s) (scaler_scale s)))) X))"

definition StandardScaler_inverse_transform :: "scaler \<Rightarrow> matrix \<Rightarrow> py_error + matrix" where
  "StandardScaler_inverse_transform s X =
     (if list_ex (\<lambda>row. length row \<noteq> length (scaler_mean s)) X then Inl ValueError
      else Inr (map (\<lambda>row. map (\<lambda>(x, m, sd). x * sd + m)
                              (zip row (zip (scaler_mean s) (scaler_scale s)))) X))"

definition StandardScaler_fit_transform :: "matrix \<Rightarrow> py_error + (scaler \<times> matrix)" where
  "StandardScaler_fit_transform X =
     err_bind (StandardScaler_fit X) (\<lambda>s.
     err_bind (StandardScaler_transform s X) (\<lambda>X_scaled.
     Inr (s, X_scaled)))"

text \<open>
  The class \<^verbatim>\<open>PCA\<close> of scikit-learn is not in the repository either, and the spec
  gives no way to compute it: it only says that a principal-component basis with
  \<open>n_components\<close> components is fitted on the scaled training features, that both
  feature matrices are projected onto it, and that fitting fails when \<open>n_components\<close>
  exceeds the number of features. The library is therefore a parameter of
  \<^verbatim>\<open>transform_data\<close>: the three operations of \<^verbatim>\<open>PCA\<close> that the function calls
  (\<^verbatim>\<open>explained_variance_ratio_\<close> is \<open>explained_variance_ratio\<close> here), over a type
  \<open>'p\<close> of fitted objects.
\<close>

record 'p pca_library =
  PCA_fit_transform :: "nat option \<Rightarrow> matrix \<Rightarrow> py_error + ('p \<times> matrix)"
  PCA_transform :: "'p \<Rightarrow> matrix \<Rightarrow> py_error + matrix"
  explained_variance_ratio :: "'p \<Rightarrow> real list"

text \<open>
  \<open>transform_data_locals\<close> runs the body of \<^verbatim>\<open>transform_data\<close> and gives the local
  variables at the \<^verbatim>\<open>return\<close> statement, with the lines printed so far: the feature
  scaler \<^verbatim>\<open>x_scaler\<close> is a local that is not returned. A printed line is the pair of
  its text and the number appended to it. \<open>transform_data\<close> is the function itself: the
  tuple it returns.
\<close>

record transform_locals =
  x_scaler :: scaler
  y_scaler :: scaler
  X_train_scaled :: matrix
  y_train_scaled :: matrix
  X_test_scaled :: matrix
  y_test_scaled :: matrix
  stdout :: "(string \<times> real) list"

definition transform_data_locals ::
  "'p pca_library \<Rightarrow> matrix \<Rightarrow> real list \<Rightarrow> matrix \<Rightarrow> real list \<Rightarrow> nat option \<Rightarrow> bool
     \<Rightarrow> py_error + transform_locals" where
  "transform_data_locals sklearn X_train y_train X_test y_test n_components use_pca =
     err_bind (StandardScaler_fit_transform X_train) (\<lambda>(xs, X_train_s).
     err_bind (StandardScaler_transform xs X_test) (\<lambda>X_test_s.
     err_bind (StandardScaler_fit_transform (reshape_column y_train)) (\<lambda>(ys, y_train_s).
     err_bind (StandardScaler_transform ys (reshape_column y_test)) (\<lambda>y_test_s.
     if use_pca then
       err_bind (PCA_fit_transform sklearn n_components X_train_s) (\<lambda>(pca, X_train_r).
       err_bind (PCA_transform sklearn pca X_test_s) (\<lambda>X_test_r.
       Inr \<lparr>x_scaler = xs, y_scaler = ys, X_train_scaled = X_train_r,
            y_train_scaled = y_train_s, X_test_scaled = X_test_r, y_test_scaled = y_test_s,
            stdout = [(''Fraction of variance retained is: '',
                       sum_list (explained_variance_ratio sklearn pca))]\<rparr>))
     else
       Inr \<lparr>x_scaler = xs, y_scaler = ys, X_train_scaled = X_train_s,
            y_train_scaled = y_train_s, X_test_scaled = X_test_s, y_test_scaled = y_test_s,
            stdout = []\<rparr>))))"

definition transform_data ::
  "'p pca_library \<Rightarrow> matrix \<Rightarrow> real list \<Rightarrow> matrix \<Rightarrow> real list \<Rightarrow> nat option \<Rightarrow> bool
     \<Rightarrow> py_error + (matrix \<times> matrix \<times> matrix \<times> matrix \<times> scaler)" where
  "transform_data sklearn X_train y_train X_test y_test n_components use_pca =
     err_bind (transform_data_locals sklearn X_train y_train X_test y_test n_components use_pca)
       (\<lambda>l. Inr (X_train_scaled l, y_train_scaled l, X_test_scaled l, y_test_scaled l, y_scaler l))"

section \<open>Concrete inputs\<close>

text \<open>
  A table of 72 rows with the six columns the loaders read. Row 31 carries the
  identifier that \<^verbatim>\<open>load_e_iso_pi_data\<close> removes by value; the other identifiers are
  runs of the letter C of different lengths, and the property columns hold the row
  number, so that every element of a result names the row it comes from.
\<close>

definition example_id :: "nat \<Rightarrow> nat cell" where
  "example_id i = (if i = 31 then Str SMILES_literal else Str (replicate (Suc i) (CHR ''C'')))"

definition example_smiles :: "nat cell list" where
  "example_smiles = map example_id [0..<72]"

definition example_vals :: "nat cell list" where
  "example_vals = map Val [0..<72]"

definition example_df :: "nat frame" where
  "example_df =
     [''SMILES'' \<mapsto> example_smiles,
      ''rate of thermal isomerisation from Z-E in s-1'' \<mapsto> example_vals,
      ''E isomer pi-pi* wavelength in nm'' \<mapsto> example_vals,
      ''E isomer n-pi* wavelength in nm'' \<mapsto> example_vals,
      ''Z isomer pi-pi* wavelength in nm'' \<mapsto> example_vals,
      ''Z isomer n-pi* wavelength in nm'' \<mapsto> example_vals]"

definition example_parse :: "string \<Rightarrow> py_error + nat frame" where
  "example_parse contents = (if contents = ''table'' then Inr example_df else Inl ParserError)"

definition example_fs :: filesystem where
  "example_fs = [''photoswitches.csv'' \<mapsto> ''table'']"

text \<open>
  A table of 33 rows in which the identifier removed by value stands in row 0, not in
  row 31.
\<close>

definition shifted_smiles :: "nat cell list" where
  "shifted_smiles = Str SMILES_literal # map (\<lambda>i. Str (replicate i (CHR ''C''))) [1..<33]"

definition shifted_vals :: "nat cell list" where
  "shifted_vals = map Val [0..<33]"

definition shifted_df :: "nat frame" where
  "shifted_df =
     [''SMILES'' \<mapsto> shifted_smiles, ''E isomer pi-pi* wavelength in nm'' \<mapsto> shifted_vals]"

definition shifted_parse :: "string \<Rightarrow> py_error + nat frame" where
  "shifted_parse contents = (if contents = ''table'' then Inr shifted_df else Inl ParserError)"

text \<open>A table without that identifier, and a table of 73 rows that has it in rows 31 and 72.\<close>

definition plain_smiles :: "nat cell list" where
  "plain_smiles = [Str ''C'', Str ''CC'', Str ''CCC'']"

definition plain_df :: "nat frame" where
  "plain_df = [''SMILES'' \<mapsto> plain_smiles]"

definition plain_parse :: "string \<Rightarrow> py_error + nat frame" where
  "plain_parse contents = (if contents = ''table'' then Inr plain_df else Inl ParserError)"

definition twice_smiles :: "nat cell list" where
  "twice_smiles = example_smiles @ [Str SMILES_literal]"

definition twice_vals :: "nat cell list" where
  "twice_vals = map Val [0..<73]"

definition twice_df :: "nat frame" where
  "twice_df =
     [''SMILES'' \<mapsto> twice_smiles, ''E isomer pi-pi* wavelength in nm'' \<mapsto> twice_vals]"

definition twice_parse :: "string \<Rightarrow> py_error + nat frame" where
  "twice_parse contents = (if contents = ''table'' then Inr twice_df else Inl ParserError)"

text \<open>
  Two worlds that hold the same table at the same path: an empty store, and a store with
  an object in it beside a second file.
\<close>

definition example_world :: "nat world" where
  "example_world = \<lparr>files = example_fs, heap = []\<rparr>"

definition later_world :: "nat world" where
  "later_world = \<lparr>files = example_fs(''notes.txt'' \<mapsto> ''x''), heap = [PyList [Str ''C'']]\<rparr>"

text \<open>
  A value for the library parameter, to run \<^verbatim>\<open>transform_data\<close> on concrete inputs: the
  projection onto the leading coordinate axes, with the share of each kept column in the
  total variance. It stands for no more than a linear projection that can be computed;
  every theorem about \<^verbatim>\<open>transform_data\<close> below holds for all values of the parameter.
\<close>

definition leading_columns :: "(nat \<times> real list) pca_library" where
  "leading_columns =
     \<lparr>PCA_fit_transform = (\<lambda>n_components X.
        let d = min (length X) (n_features X);
            k = (case n_components of None \<Rightarrow> d | Some k \<Rightarrow> k);
            total = sum_list (map (\<lambda>j. (std (column X j)) ^ 2) [0..<n_features X])
        in if d < k then Inl ValueError
           else Inr ((k, map (\<lambda>j. (std (column X j)) ^ 2 / total) [0..<k]), map (take k) X)),
      PCA_transform = (\<lambda>pca X. Inr (map (take (fst pca)) X)),
      explained_variance_ratio = snd\<rparr>"

section \<open>Facts about the operations\<close>

lemma err_bind_Inr: "err_bind (Inr x) f = f x"
  by (simp add: err_bind_def)

lemma err_bind_Inl: "err_bind (Inl e) f = Inl e"
  by (simp add: err_bind_def)

lemma err_bind_Inr_iff:
  "err_bind r f = Inr y \<longleftrightarrow> (\<exists>x. r = Inr x \<and> f x = Inr y)"
  by (cases r) (simp_all add: err_bind_def)

lemma getitem_Some: "df name = Some col \<Longrightarrow> getitem df name = Inr col"
  by (simp add: getitem_def)

lemma py_slice_nth: "b \<le> length xs \<Longrightarrow> py_slice xs a b = map ((!) xs) [a..<b]"
  unfolding py_slice_def by (auto simp: list_eq_iff_nth_eq)

lemma py_slice_from_nth: "py_slice_from xs a = map ((!) xs) [a..<length xs]"
  unfolding py_slice_from_def by (auto simp: list_eq_iff_nth_eq)

lemma py_index_ok: "i < length xs \<Longrightarrow> py_index xs i = Inr (xs ! i)"
  by (simp add: py_index_def)

lemma skip_one_nth:
  assumes "i < length xs"
  shows "take i xs @ drop (Suc i) xs = map ((!) xs) (filter (\<lambda>r. r \<noteq> i) [0..<length xs])"
proof -
  have "[0..<length xs] = [0..<i] @ [i] @ [Suc i..<length xs]"
    using assms by (metis append_Cons append_Nil less_imp_le_nat upt_add_eq_append
        le_add_diff_inverse upt_conv_Cons zero_le)
  then have "filter (\<lambda>r. r \<noteq> i) [0..<length xs] = [0..<i] @ [Suc i..<length xs]"
    by (auto simp: filter_id_conv)
  moreover have "take i xs = map ((!) xs) [0..<i]"
    using assms py_slice_nth [of i xs 0] by (simp add: py_slice_def)
  moreover have "drop (Suc i) xs = map ((!) xs) [Suc i..<length xs]"
    using py_slice_from_nth [of xs "Suc i"] by (simp add: py_slice_from_def)
  ultimately show ?thesis by simp
qed

lemma zip_upt_filter:
  "map fst (filter (\<lambda>p. P (snd p)) (zip xs [0..<length xs])) = map ((!) xs) (filter P [0..<length xs])"
proof (induction xs rule: rev_induct)
  case Nil
  then show ?case by simp
next
  case (snoc x xs)
  have "map ((!) (xs @ [x])) (filter P [0..<length xs]) = map ((!) xs) (filter P [0..<length xs])"
    by (rule map_cong) (auto simp: nth_append)
  with snoc show ?case by simp
qed

lemma np_delete_nth:
  assumes "\<forall>i\<in>set obj. i < length arr"
  shows "np_delete arr obj = Inr (map ((!) arr) (filter (\<lambda>i. i \<notin> set obj) [0..<length arr]))"
proof -
  have "\<not> list_ex (\<lambda>i. length arr \<le> i) obj"
    using assms by (auto simp: list_ex_iff)
  then show ?thesis
    unfolding np_delete_def by (simp add: zip_upt_filter [of "\<lambda>i. i \<notin> set obj"])
qed

lemma filter_upt_split:
  assumes "m \<le> n" and "\<forall>i\<in>set obj. i < m"
  shows "filter (\<lambda>i. i \<notin> set obj) [0..<n] = filter (\<lambda>i. i \<notin> set obj) [0..<m] @ [m..<n]"
proof -
  have "[0..<n] = [0..<m] @ [m..<n]"
    using assms(1) by (metis le0 le_add_diff_inverse upt_add_eq_append)
  moreover have "filter (\<lambda>i. i \<notin> set obj) [m..<n] = [m..<n]"
    using assms(2) by (auto simp: filter_id_conv)
  ultimately show ?thesis by simp
qed

lemma list_remove_absent: "x \<notin> set xs \<Longrightarrow> list_remove x xs = Inl ValueError"
  by (induction xs) auto

lemma list_remove_first:
  "x \<in> set xs \<Longrightarrow>
     \<exists>i<length xs. xs ! i = x \<and> (\<forall>j<i. xs ! j \<noteq> x)
       \<and> list_remove x xs = Inr (take i xs @ drop (Suc i) xs)"
proof (induction xs)
  case Nil
  then show ?case by simp
next
  case (Cons y ys)
  show ?case
  proof (cases "y = x")
    case True
    then have "0 < length (y # ys) \<and> (y # ys) ! 0 = x \<and> (\<forall>j<0. (y # ys) ! j \<noteq> x)
        \<and> list_remove x (y # ys) = Inr (take 0 (y # ys) @ drop (Suc 0) (y # ys))"
      by simp
    then show ?thesis by blast
  next
    case False
    with Cons.prems have "x \<in> set ys" by simp
    from Cons.IH [OF this] obtain i where i: "i < length ys" "ys ! i = x"
      "\<forall>j<i. ys ! j \<noteq> x" "list_remove x ys = Inr (take i ys @ drop (Suc i) ys)"
      by blast
    have "\<forall>j<Suc i. (y # ys) ! j \<noteq> x"
      using False i(3) by (auto simp: less_Suc_eq_0_disj)
    with i False have "Suc i < length (y # ys) \<and> (y # ys) ! Suc i = x
        \<and> (\<forall>j<Suc i. (y # ys) ! j \<noteq> x)
        \<and> list_remove x (y # ys) = Inr (take (Suc i) (y # ys) @ drop (Suc (Suc i)) (y # ys))"
      by simp
    then show ?thesis by blast
  qed
qed

lemma list_remove_remove1:
  "list_remove x xs = (if x \<in> set xs then Inr (remove1 x xs) else Inl ValueError)"
  by (induction xs) auto

lemma count_list_remove1:
  "x \<in> set xs \<Longrightarrow> count_list (remove1 x xs) x = count_list xs x - 1"
  by (induction xs) auto

subsection \<open>The positions each loader keeps\<close>

lemma k39: "filter (\<lambda>i. i \<notin> set [14, 38::nat]) [0..<39] = [0..<14] @ [15..<38]"
  by code_simp

lemma k42n: "filter (\<lambda>i. i \<notin> set [12, 13, 14, 32, 41::nat]) [0..<42]
    = [0..<12] @ [15..<32] @ [33..<41]"
  by code_simp

lemma k42: "filter (\<lambda>i. i \<notin> set [12, 13, 14, 25, 27, 31, 32, 34, 35, 36, 38, 39, 40, 41::nat]) [0..<42]
   = [0..<12] @ [15..<25] @ [26] @ [28..<31] @ [33] @ [37]"
  by code_simp

lemma z_iso_pi_selection:
  "arange 12 15 @ [25] @ [27] @ arange 31 33 @ arange 34 37 @ arange 38 42
     = [12, 13, 14, 25, 27, 31, 32, 34, 35, 36, 38, 39, 40, 41]"
  by code_simp

lemma z_iso_pi_kept:
  assumes "42 \<le> n"
  shows "filter (\<lambda>i. i \<notin> {12, 13, 14, 25, 27, 31, 32, 34, 35, 36, 38, 39, 40, 41}) [0..<n]
     = [0..<12] @ [15..<25] @ [26] @ [28..<31] @ [33] @ [37] @ [42..<n]"
proof -
  let ?obj = "[12, 13, 14, 25, 27, 31, 32, 34, 35, 36, 38, 39, 40, 41::nat]"
  have "\<forall>i\<in>set ?obj. i < 42" by simp
  from filter_upt_split [OF assms this] k42
  have "filter (\<lambda>i. i \<notin> set ?obj) [0..<n]
      = [0..<12] @ [15..<25] @ [26] @ [28..<31] @ [33] @ [37] @ [42..<n]"
    by simp
  moreover have "set ?obj = {12, 13, 14, 25, 27, 31, 32, 34, 35, 36, 38, 39, 40, 41}"
    by simp
  ultimately show ?thesis by simp
qed

lemma load_thermal_data_eval:
  assumes "read_csv parse fs path = Inr df"
    and "df ''SMILES'' = Some s"
    and "df ''rate of thermal isomerisation from Z-E in s-1'' = Some v"
  shows "load_thermal_data parse fs path = Inr (take 65 s, take 65 v)"
  unfolding load_thermal_data_def
  by (simp add: assms err_bind_Inr getitem_def py_slice_def)

lemma load_e_iso_pi_data_eval:
  assumes "read_csv parse fs path = Inr df"
    and "df ''SMILES'' = Some s"
    and "df ''E isomer pi-pi* wavelength in nm'' = Some v"
    and "list_remove (Str SMILES_literal) s = Inr ids"
    and "31 < length v"
  shows "load_e_iso_pi_data parse fs path = Inr (ids, take 31 v @ drop 32 v)"
  unfolding load_e_iso_pi_data_def
  using assms(5) by (simp add: assms(1-4) err_bind_Inr getitem_def np_delete1_def)

lemma load_e_iso_n_data_eval:
  assumes "read_csv parse fs path = Inr df"
    and "df ''SMILES'' = Some s"
    and "df ''E isomer n-pi* wavelength in nm'' = Some v"
    and "length v = length s" and "39 \<le> length s"
  shows "load_e_iso_n_data parse fs path
       = Inr (map ((!) s) ([0..<14] @ [15..<38] @ [39..<length s]),
              map ((!) v) ([0..<14] @ [15..<38] @ [39..<length s]))"
proof -
  have "\<forall>i\<in>set [14, 38::nat]. i < 39" by simp
  from filter_upt_split [OF assms(5) this] k39
  have kept: "filter (\<lambda>i. i \<notin> set [14, 38]) [0..<length s] = [0..<14] @ [15..<38] @ [39..<length s]"
    by simp
  have ids: "py_slice s 0 14 @ py_slice s 15 38 @ py_slice_from s 39
      = map ((!) s) ([0..<14] @ [15..<38] @ [39..<length s])"
    using assms(5) by (simp add: py_slice_nth py_slice_from_nth)
  have "\<forall>i\<in>set [14, 38::nat]. i < length v"
    using assms(4,5) by simp
  from np_delete_nth [OF this] kept
  have del: "np_delete v [14, 38] = Inr (map ((!) v) ([0..<14] @ [15..<38] @ [39..<length s]))"
    by (simp only: assms(4))
  show ?thesis
    unfolding load_e_iso_n_data_def Let_def
    by (simp only: assms(1,2,3) err_bind_Inr getitem_Some ids del)
qed

lemma load_z_iso_pi_data_eval:
  assumes "read_csv parse fs path = Inr df"
    and "df ''SMILES'' = Some s"
    and "df ''Z isomer pi-pi* wavelength in nm'' = Some v"
    and "length v = length s" and "42 \<le> length s"
  shows "load_z_iso_pi_data parse fs path
       = Inr (map ((!) s) ([0..<12] @ [15..<25] @ [26] @ [28..<31] @ [33] @ [37] @ [42..<length s]),
              map ((!) v) ([0..<12] @ [15..<25] @ [26] @ [28..<31] @ [33] @ [37] @ [42..<length s]))"
proof -
  let ?K = "[0..<12] @ [15..<25] @ [26] @ [28..<31] @ [33] @ [37] @ [42..<length s]"
  let ?obj = "[12, 13, 14, 25, 27, 31, 32, 34, 35, 36, 38, 39, 40, 41::nat]"
  have "\<forall>i\<in>set ?obj. i < 42" by simp
  from filter_upt_split [OF assms(5) this] k42
  have kept: "filter (\<lambda>i. i \<notin> set ?obj) [0..<length s] = ?K"
    by simp
  have ids: "py_slice s 0 12 @ py_slice s 15 25 @ [s ! 26] @ py_slice s 28 31 @ [s ! 33]
        @ [s ! 37] @ py_slice_from s 42 = map ((!) s) ?K"
    using assms(5) by (simp add: py_slice_nth py_slice_from_nth)
  have idx: "py_index s 26 = Inr (s ! 26)" "py_index s 33 = Inr (s ! 33)"
    "py_index s 37 = Inr (s ! 37)"
    using assms(5) by (simp_all add: py_index_ok)
  have "\<forall>i\<in>set ?obj. i < length v"
    using assms(4,5) by simp
  from np_delete_nth [OF this] kept
  have del: "np_delete v ?obj = Inr (map ((!) v) ?K)"
    by (simp only: assms(4))
  show ?thesis
    unfolding load_z_iso_pi_data_def Let_def z_iso_pi_selection
    by (simp only: assms(1,2,3) err_bind_Inr getitem_Some idx ids del)
qed

lemma load_z_iso_n_data_eval:
  assumes "read_csv parse fs path = Inr df"
    and "df ''SMILES'' = Some s"
    and "df ''Z isomer n-pi* wavelength in nm'' = Some v"
    and "length v = length s" and "42 \<le> length s"
  shows "load_z_iso_n_data parse fs path
       = Inr (map ((!) s) ([0..<12] @ [15..<32] @ [33..<41] @ [42..<length s]),
              map ((!) v) ([0..<12] @ [15..<32] @ [33..<41] @ [42..<length s]))"
proof -
  have "\<forall>i\<in>set [12, 13, 14, 32, 41::nat]. i < 42" by simp
  from filter_upt_split [OF assms(5) this] k42n
  have kept: "filter (\<lambda>i. i \<notin> set [12, 13, 14, 32, 41]) [0..<length s]
      = [0..<12] @ [15..<32] @ [33..<41] @ [42..<length s]"
    by simp
  have ids: "py_slice s 0 12 @ py_slice s 15 32 @ py_slice s 33 41 @ py_slice_from s 42
      = map ((!) s) ([0..<12] @ [15..<32] @ [33..<41] @ [42..<length s])"
    using assms(5) by (simp add: py_slice_nth py_slice_from_nth)
  have "\<forall>i\<in>set [12, 13, 14, 32, 41::nat]. i < length v"
    using assms(4,5) by simp
  from np_delete_nth [OF this] kept
  have del: "np_delete v [12, 13, 14, 32, 41]
      = Inr (map ((!) v) ([0..<12] @ [15..<32] @ [33..<41] @ [42..<length s]))"
    by (simp only: assms(4))
  show ?thesis
    unfolding load_z_iso_n_data_def Let_def
    by (simp only: assms(1,2,3) err_bind_Inr getitem_Some ids del)
qed

subsection \<open>The loaders on a store compute the loaders on values\<close>

lemma loaders_read_path_only:
  assumes "fs path = fs' path"
  shows "load_thermal_data parse fs path = load_thermal_data parse fs' path"
    and "load_e_iso_pi_data parse fs path = load_e_iso_pi_data parse fs' path"
    and "load_e_iso_n_data parse fs path = load_e_iso_n_data parse fs' path"
    and "load_z_iso_pi_data parse fs path = load_z_iso_pi_data parse fs' path"
    and "load_z_iso_n_data parse fs path = load_z_iso_n_data parse fs' path"
proof -
  have "read_csv parse fs path = read_csv parse fs' path"
    by (simp add: read_csv_def assms)
  then show "load_thermal_data parse fs path = load_thermal_data parse fs' path"
    and "load_e_iso_pi_data parse fs path = load_e_iso_pi_data parse fs' path"
    and "load_e_iso_n_data parse fs path = load_e_iso_n_data parse fs' path"
    and "load_z_iso_pi_data parse fs path = load_z_iso_pi_data parse fs' path"
    and "load_z_iso_n_data parse fs path = load_z_iso_n_data parse fs' path"
    unfolding load_thermal_data_def load_e_iso_pi_data_def load_e_iso_n_data_def
      load_z_iso_pi_data_def load_z_iso_n_data_def
    by (simp_all only:)
qed

lemmas st_defs = st_bind_def st_return_def alloc_def the_obj_def frame_at_def list_at_def
  array_at_def pd_read_csv_def series_to_list_def series_to_numpy_def list_remove_at_def
  new_list_def new_array_def returned_def world_after_def

lemma load_thermal_data_st_run:
  "returned (load_thermal_data_st parse) path w = load_thermal_data parse (files w) path
   \<and> files (world_after (load_thermal_data_st parse) path w) = files w
   \<and> take (length (heap w)) (heap (world_after (load_thermal_data_st parse) path w)) = heap w"
  unfolding load_thermal_data_st_def load_thermal_data_def
  by (auto simp: st_defs err_bind_def nth_append split: sum.splits)

lemma load_e_iso_pi_data_st_run:
  "returned (load_e_iso_pi_data_st parse) path w = load_e_iso_pi_data parse (files w) path
   \<and> files (world_after (load_e_iso_pi_data_st parse) path w) = files w
   \<and> take (length (heap w)) (heap (world_after (load_e_iso_pi_data_st parse) path w)) = heap w"
  unfolding load_e_iso_pi_data_st_def load_e_iso_pi_data_def
  by (auto simp: st_defs err_bind_def nth_append split: sum.splits)

lemma load_e_iso_n_data_st_run:
  "returned (load_e_iso_n_data_st parse) path w = load_e_iso_n_data parse (files w) path
   \<and> files (world_after (load_e_iso_n_data_st parse) path w) = files w
   \<and> take (length (heap w)) (heap (world_after (load_e_iso_n_data_st parse) path w)) = heap w"
  unfolding load_e_iso_n_data_st_def load_e_iso_n_data_def
  by (auto simp: st_defs err_bind_def nth_append Let_def split: sum.splits)

lemma load_z_iso_pi_data_st_run:
  "returned (load_z_iso_pi_data_st parse) path w = load_z_iso_pi_data parse (files w) path
   \<and> files (world_after (load_z_iso_pi_data_st parse) path w) = files w
   \<and> take (length (heap w)) (heap (world_after (load_z_iso_pi_data_st parse) path w)) = heap w"
  unfolding load_z_iso_pi_data_st_def load_z_iso_pi_data_def
  by (auto simp: st_defs err_bind_def nth_append Let_def split: sum.splits)

lemma load_z_iso_n_data_st_run:
  "returned (load_z_iso_n_data_st parse) path w = load_z_iso_n_data parse (files w) path
   \<and> files (world_after (load_z_iso_n_data_st parse) path w) = files w
   \<and> take (length (heap w)) (heap (world_after (load_z_iso_n_data_st parse) path w)) = heap w"
  unfolding load_z_iso_n_data_st_def load_z_iso_n_data_def
  by (auto simp: st_defs err_bind_def nth_append Let_def split: sum.splits)

subsection \<open>The concrete tables\<close>

lemma example_read: "read_csv example_parse example_fs ''photoswitches.csv'' = Inr example_df"
  by (simp add: read_csv_def example_parse_def example_fs_def)

lemma example_columns:
  "example_df ''SMILES'' = Some example_smiles"
  "example_df ''rate of thermal isomerisation from Z-E in s-1'' = Some example_vals"
  "example_df ''E isomer pi-pi* wavelength in nm'' = Some example_vals"
  "example_df ''E isomer n-pi* wavelength in nm'' = Some example_vals"
  "example_df ''Z isomer pi-pi* wavelength in nm'' = Some example_vals"
  "example_df ''Z isomer n-pi* wavelength in nm'' = Some example_vals"
  by (simp_all add: example_df_def)

lemma example_lengths: "length example_smiles = 72" "length example_vals = 72"
  by (simp_all add: example_smiles_def example_vals_def)

lemma example_literal: "Str SMILES_literal \<in> set example_smiles"
proof -
  have "example_id 31 \<in> example_id ` {0..<72}" by (rule imageI) simp
  then show ?thesis by (simp add: example_smiles_def example_id_def)
qed

lemma example_id_literal: "example_id i = Str SMILES_literal \<longleftrightarrow> i = 31"
proof -
  have "CHR ''1'' \<in> set SMILES_literal"
    by (simp add: SMILES_literal_def)
  moreover have "CHR ''1'' \<notin> set (replicate (Suc i) (CHR ''C''))"
    by simp
  ultimately have "replicate (Suc i) (CHR ''C'') \<noteq> SMILES_literal"
    by metis
  then show ?thesis by (simp add: example_id_def)
qed

lemma example_smiles_nth: "i < 72 \<Longrightarrow> example_smiles ! i = example_id i"
  by (simp add: example_smiles_def)

lemma twice_count: "count_list twice_smiles (Str SMILES_literal) = 2"
proof -
  have "count_list example_smiles (Str SMILES_literal) = 1"
    by code_simp
  then show ?thesis by (simp add: twice_smiles_def)
qed

lemma twice_first:
  assumes "i < length twice_smiles" and "twice_smiles ! i = Str SMILES_literal"
    and "\<forall>j<i. twice_smiles ! j \<noteq> Str SMILES_literal"
  shows "i = 31"
proof -
  have at: "twice_smiles ! 31 = Str SMILES_literal"
    by (simp add: twice_smiles_def nth_append example_lengths example_smiles_nth example_id_literal)
  with assms(3) have "i \<le> 31" by (meson not_le)
  then have "twice_smiles ! i = example_id i"
    by (simp add: twice_smiles_def nth_append example_lengths example_smiles_nth)
  with assms(2) show ?thesis by (simp add: example_id_literal)
qed

subsection \<open>Scalers and the run of \<^verbatim>\<open>transform_data\<close>\<close>

lemma StandardScaler_fit_transform_Inr:
  "StandardScaler_fit_transform X = Inr (s, Xs)
     \<longleftrightarrow> StandardScaler_fit X = Inr s \<and> StandardScaler_transform s X = Inr Xs"
  unfolding StandardScaler_fit_transform_def by (auto simp: err_bind_Inr_iff)

lemma transform_data_locals_Inr:
  assumes "transform_data_locals sklearn X_train y_train X_test y_test n_components use_pca = Inr l"
  shows "StandardScaler_fit X_train = Inr (x_scaler l)"
    and "StandardScaler_fit (reshape_column y_train) = Inr (y_scaler l)"
    and "StandardScaler_transform (y_scaler l) (reshape_column y_train) = Inr (y_train_scaled l)"
    and "StandardScaler_transform (y_scaler l) (reshape_column y_test) = Inr (y_test_scaled l)"
    and "\<exists>Xs. StandardScaler_transform (x_scaler l) X_train = Inr Xs
           \<and> (if use_pca then \<exists>pca. PCA_fit_transform sklearn n_components Xs = Inr (pca, X_train_scaled l)
               else X_train_scaled l = Xs)"
  using assms unfolding transform_data_locals_def
  by (auto simp: err_bind_Inr_iff StandardScaler_fit_transform_Inr split: if_splits)

lemma transform_data_Inr:
  "transform_data sklearn X_train y_train X_test y_test n_components use_pca = Inr r
     \<longleftrightarrow> (\<exists>l. transform_data_locals sklearn X_train y_train X_test y_test n_components use_pca = Inr l
           \<and> r = (X_train_scaled l, y_train_scaled l, X_test_scaled l, y_test_scaled l, y_scaler l))"
  unfolding transform_data_def by (auto simp: err_bind_Inr_iff)

lemma n_features_reshape_column: "y \<noteq> [] \<Longrightarrow> n_features (reshape_column y) = 1"
  by (cases y) (simp_all add: n_features_def reshape_column_def)

lemma column_reshape_column: "column (reshape_column y) 0 = y"
  by (simp add: column_def reshape_column_def o_def)

lemma StandardScaler_fit_reshape_column:
  "StandardScaler_fit (reshape_column y)
     = (if y = [] then Inl ValueError
        else Inr \<lparr>scaler_mean = [mean y], scaler_scale = [std y]\<rparr>)"
proof (cases "y = []")
  case True
  then show ?thesis by (simp add: StandardScaler_fit_def reshape_column_def)
next
  case False
  then have "reshape_column y \<noteq> []" by (simp add: reshape_column_def)
  with False show ?thesis
    by (simp add: StandardScaler_fit_def n_features_reshape_column column_reshape_column)
qed

lemma StandardScaler_transform_reshape_column:
  "StandardScaler_transform \<lparr>scaler_mean = [m], scaler_scale = [sd]\<rparr> (reshape_column z)
     = Inr (map (\<lambda>v. [(v - m) / sd]) z)"
  by (simp add: StandardScaler_transform_def reshape_column_def list_ex_iff o_def)

lemma StandardScaler_inverse_transform_column:
  "StandardScaler_inverse_transform \<lparr>scaler_mean = [m], scaler_scale = [sd]\<rparr> (map (\<lambda>v. [f v]) z)
     = Inr (map (\<lambda>v. [f v * sd + m]) z)"
  by (simp add: StandardScaler_inverse_transform_def list_ex_iff o_def)

lemma transform_data_locals_targets:
  assumes "transform_data_locals sklearn X_train y_train X_test y_test n_components use_pca = Inr l"
  shows "y_train \<noteq> []"
    and "y_scaler l = \<lparr>scaler_mean = [mean y_train], scaler_scale = [std y_train]\<rparr>"
    and "y_train_scaled l = map (\<lambda>v. [(v - mean y_train) / std y_train]) y_train"
    and "y_test_scaled l = map (\<lambda>v. [(v - mean y_train) / std y_train]) y_test"
proof -
  note f = transform_data_locals_Inr(2,3,4) [OF assms]
  from f(1) show ne: "y_train \<noteq> []"
    by (auto simp: StandardScaler_fit_reshape_column split: if_splits)
  with f(1) show s: "y_scaler l = \<lparr>scaler_mean = [mean y_train], scaler_scale = [std y_train]\<rparr>"
    by (simp add: StandardScaler_fit_reshape_column)
  from f(2) show "y_train_scaled l = map (\<lambda>v. [(v - mean y_train) / std y_train]) y_train"
    by (simp add: s StandardScaler_transform_reshape_column)
  from f(3) show "y_test_scaled l = map (\<lambda>v. [(v - mean y_train) / std y_train]) y_test"
    by (simp add: s StandardScaler_transform_reshape_column)
qed

lemmas transform_data_eval_defs =
  transform_data_locals_def StandardScaler_fit_transform_def
  StandardScaler_fit_def StandardScaler_transform_def err_bind_def reshape_column_def
  n_features_def column_def mean_def std_def

lemma example_run:
  "transform_data_locals leading_columns [[1, 2], [3, 4]] [1, 3] [[5, 6]] [2] None False
     = Inr \<lparr>x_scaler = \<lparr>scaler_mean = [2, 3], scaler_scale = [1, 1]\<rparr>,
            y_scaler = \<lparr>scaler_mean = [2], scaler_scale = [1]\<rparr>,
            X_train_scaled = [[-1, -1], [1, 1]], y_train_scaled = [[-1], [1]],
            X_test_scaled = [[3, 3]], y_test_scaled = [[0]], stdout = []\<rparr>"
  by (simp add: transform_data_eval_defs)

lemma example_run':
  "transform_data_locals leading_columns [[1, 2], [3, 4]] [1, 3] [[0, 0], [2, 3]] [7, 8] None False
     = Inr \<lparr>x_scaler = \<lparr>scaler_mean = [2, 3], scaler_scale = [1, 1]\<rparr>,
            y_scaler = \<lparr>scaler_mean = [2], scaler_scale = [1]\<rparr>,
            X_train_scaled = [[-1, -1], [1, 1]], y_train_scaled = [[-1], [1]],
            X_test_scaled = [[-2, -3], [0, 0]], y_test_scaled = [[5], [6]], stdout = []\<rparr>"
  by (simp add: transform_data_eval_defs)

lemma example_return:
  "transform_data leading_columns [[1, 2], [3, 4]] [1, 3] [[5, 6]] [2] None False
     = Inr ([[-1, -1], [1, 1]], [[-1], [1]], [[3, 3]], [[0]],
            \<lparr>scaler_mean = [2], scaler_scale = [1]\<rparr>)"
  by (simp add: transform_data_def example_run err_bind_Inr)

lemma example_pca_run:
  "transform_data_locals leading_columns [[1, 2], [3, 4]] [1, 3] [[5, 6]] [2] (Some 1) True
     = Inr \<lparr>x_scaler = \<lparr>scaler_mean = [2, 3], scaler_scale = [1, 1]\<rparr>,
            y_scaler = \<lparr>scaler_mean = [2], scaler_scale = [1]\<rparr>,
            X_train_scaled = [[-1], [1]], y_train_scaled = [[-1], [1]],
            X_test_scaled = [[3]], y_test_scaled = [[0]],
            stdout = [(''Fraction of variance retained is: '', 1 / 2)]\<rparr>"
  by (simp add: transform_data_eval_defs leading_columns_def)

section \<open>The loaders\<close>

text \<open>
  Claim C1. On a table that has the \<^verbatim>\<open>SMILES\<close> column and the loader's property
  column, both with the same number of rows, and enough rows for every position the
  loader names (and, for \<^verbatim>\<open>load_e_iso_pi_data\<close>, the literal identifier in the
  \<^verbatim>\<open>SMILES\<close> column), each of the five loaders returns an identifier sequence and a
  target sequence of the same length: it takes as many positions out of the identifiers
  as out of the targets (all beyond the first 65, one, two, fourteen and five).
\<close>

theorem loaders_equal_length:
  assumes "read_csv parse fs path = Inr df" and "df ''SMILES'' = Some s"
  shows "(df ''rate of thermal isomerisation from Z-E in s-1'' = Some v1 \<and> length v1 = length s
          \<longrightarrow> (\<exists>ids ts. load_thermal_data parse fs path = Inr (ids, ts)
                \<and> length ids = length ts))
     \<and> (df ''E isomer pi-pi* wavelength in nm'' = Some v2 \<and> length v2 = length s
          \<and> 31 < length s \<and> Str SMILES_literal \<in> set s
          \<longrightarrow> (\<exists>ids ts. load_e_iso_pi_data parse fs path = Inr (ids, ts)
                \<and> length ids = length s - 1 \<and> length ts = length v2 - 1
                \<and> length ids = length ts))
     \<and> (df ''E isomer n-pi* wavelength in nm'' = Some v3 \<and> length v3 = length s
          \<and> 39 \<le> length s
          \<longrightarrow> (\<exists>ids ts. load_e_iso_n_data parse fs path = Inr (ids, ts)
                \<and> length ids = length s - 2 \<and> length ts = length v3 - 2
                \<and> length ids = length ts))
     \<and> (df ''Z isomer pi-pi* wavelength in nm'' = Some v4 \<and> length v4 = length s
          \<and> 42 \<le> length s
          \<longrightarrow> (\<exists>ids ts. load_z_iso_pi_data parse fs path = Inr (ids, ts)
                \<and> length ids = length s - 14 \<and> length ts = length v4 - 14
                \<and> length ids = length ts))
     \<and> (df ''Z isomer n-pi* wavelength in nm'' = Some v5 \<and> length v5 = length s
          \<and> 42 \<le> length s
          \<longrightarrow> (\<exists>ids ts. load_z_iso_n_data parse fs path = Inr (ids, ts)
                \<and> length ids = length s - 5 \<and> length ts = length v5 - 5
                \<and> length ids = length ts))"
proof (intro conjI impI; elim conjE)
  assume "df ''rate of thermal isomerisation from Z-E in s-1'' = Some v1" "length v1 = length s"
  then show "\<exists>ids ts. load_thermal_data parse fs path = Inr (ids, ts) \<and> length ids = length ts"
    using load_thermal_data_eval [OF assms] by simp
next
  assume h: "df ''E isomer pi-pi* wavelength in nm'' = Some v2" "length v2 = length s"
    "31 < length s" "Str SMILES_literal \<in> set s"
  have rm: "list_remove (Str SMILES_literal) s = Inr (remove1 (Str SMILES_literal) s)"
    using h(4) by (simp add: list_remove_remove1)
  have "31 < length v2" using h(2,3) by simp
  from load_e_iso_pi_data_eval [OF assms h(1) rm this]
  show "\<exists>ids ts. load_e_iso_pi_data parse fs path = Inr (ids, ts)
      \<and> length ids = length s - 1 \<and> length ts = length v2 - 1 \<and> length ids = length ts"
    using h(2,3,4) by (simp add: length_remove1)
next
  assume h: "df ''E isomer n-pi* wavelength in nm'' = Some v3" "length v3 = length s"
    "39 \<le> length s"
  from load_e_iso_n_data_eval [OF assms h]
  show "\<exists>ids ts. load_e_iso_n_data parse fs path = Inr (ids, ts)
      \<and> length ids = length s - 2 \<and> length ts = length v3 - 2 \<and> length ids = length ts"
    using h(2,3) by simp
next
  assume h: "df ''Z isomer pi-pi* wavelength in nm'' = Some v4" "length v4 = length s"
    "42 \<le> length s"
  from load_z_iso_pi_data_eval [OF assms h]
  show "\<exists>ids ts. load_z_iso_pi_data parse fs path = Inr (ids, ts)
      \<and> length ids = length s - 14 \<and> length ts = length v4 - 14 \<and> length ids = length ts"
    using h(2,3) by simp
next
  assume h: "df ''Z isomer n-pi* wavelength in nm'' = Some v5" "length v5 = length s"
    "42 \<le> length s"
  from load_z_iso_n_data_eval [OF assms h]
  show "\<exists>ids ts. load_z_iso_n_data parse fs path = Inr (ids, ts)
      \<and> length ids = length s - 5 \<and> length ts = length v5 - 5 \<and> length ids = length ts"
    using h(2,3) by simp
qed

theorem loaders_equal_length_witness:
  "read_csv example_parse example_fs ''photoswitches.csv'' = Inr example_df
   \<and> example_df ''SMILES'' = Some example_smiles
   \<and> example_df ''rate of thermal isomerisation from Z-E in s-1'' = Some example_vals
   \<and> example_df ''E isomer pi-pi* wavelength in nm'' = Some example_vals
   \<and> example_df ''E isomer n-pi* wavelength in nm'' = Some example_vals
   \<and> example_df ''Z isomer pi-pi* wavelength in nm'' = Some example_vals
   \<and> example_df ''Z isomer n-pi* wavelength in nm'' = Some example_vals
   \<and> length example_vals = length example_smiles \<and> 42 \<le> length example_smiles
   \<and> Str SMILES_literal \<in> set example_smiles
   \<and> (\<exists>ids ts. load_thermal_data example_parse example_fs ''photoswitches.csv'' = Inr (ids, ts)
         \<and> length ids = length ts)
   \<and> (\<exists>ids ts. load_e_iso_pi_data example_parse example_fs ''photoswitches.csv'' = Inr (ids, ts)
         \<and> length ids = length example_smiles - 1 \<and> length ts = length example_vals - 1
         \<and> length ids = length ts)
   \<and> (\<exists>ids ts. load_e_iso_n_data example_parse example_fs ''photoswitches.csv'' = Inr (ids, ts)
         \<and> length ids = length example_smiles - 2 \<and> length ts = length example_vals - 2
         \<and> length ids = length ts)
   \<and> (\<exists>ids ts. load_z_iso_pi_data example_parse example_fs ''photoswitches.csv'' = Inr (ids, ts)
         \<and> length ids = length example_smiles - 14 \<and> length ts = length example_vals - 14
         \<and> length ids = length ts)
   \<and> (\<exists>ids ts. load_z_iso_n_data example_parse example_fs ''photoswitches.csv'' = Inr (ids, ts)
         \<and> length ids = length example_smiles - 5 \<and> length ts = length example_vals - 5
         \<and> length ids = length ts)"
proof -
  have l: "length example_vals = length example_smiles" "42 \<le> length example_smiles"
    "31 < length example_smiles" "39 \<le> length example_smiles"
    by (simp_all add: example_lengths)
  note T = loaders_equal_length [OF example_read example_columns(1),
      of example_vals example_vals example_vals example_vals example_vals]
  from T have t1: "\<exists>ids ts. load_thermal_data example_parse example_fs ''photoswitches.csv''
      = Inr (ids, ts) \<and> length ids = length ts"
    using example_columns(2) l(1) by blast
  from T have t2: "\<exists>ids ts. load_e_iso_pi_data example_parse example_fs ''photoswitches.csv''
      = Inr (ids, ts) \<and> length ids = length example_smiles - 1
      \<and> length ts = length example_vals - 1 \<and> length ids = length ts"
    using example_columns(3) l(1,3) example_literal by blast
  from T have t3: "\<exists>ids ts. load_e_iso_n_data example_parse example_fs ''photoswitches.csv''
      = Inr (ids, ts) \<and> length ids = length example_smiles - 2
      \<and> length ts = length example_vals - 2 \<and> length ids = length ts"
    using example_columns(4) l(1,4) by blast
  from T have t4: "\<exists>ids ts. load_z_iso_pi_data example_parse example_fs ''photoswitches.csv''
      = Inr (ids, ts) \<and> length ids = length example_smiles - 14
      \<and> length ts = length example_vals - 14 \<and> length ids = length ts"
    using example_columns(5) l(1,2) by blast
  from T have t5: "\<exists>ids ts. load_z_iso_n_data example_parse example_fs ''photoswitches.csv''
      = Inr (ids, ts) \<and> length ids = length example_smiles - 5
      \<and> length ts = length example_vals - 5 \<and> length ids = length ts"
    using example_columns(6) l(1,2) by blast
  show ?thesis
    by (intro conjI example_read example_columns l(1,2) example_literal t1 t2 t3 t4 t5)
qed

text \<open>
  Claim C2. On a table with at least 42 rows \<^verbatim>\<open>load_z_iso_pi_data\<close> keeps the
  identifiers of the rows 0 to 11, 15 to 24, 26, 28 to 30, 33, 37 and 42 onwards, in that
  order, and deletes the targets of the rows 12, 13, 14, 25, 27, 31, 32, 34, 35, 36, 38,
  39, 40 and 41. The rows kept are the rows not deleted, so element \<open>i\<close> of the
  identifiers and element \<open>i\<close> of the targets come from the same row.
\<close>

theorem load_z_iso_pi_data_positions:
  assumes "read_csv parse fs path = Inr df"
    and "df ''SMILES'' = Some s"
    and "df ''Z isomer pi-pi* wavelength in nm'' = Some v"
    and "length v = length s" and "42 \<le> length s"
  shows "load_z_iso_pi_data parse fs path
       = Inr (map ((!) s) ([0..<12] @ [15..<25] @ [26] @ [28..<31] @ [33] @ [37] @ [42..<length s]),
              map ((!) v) (filter (\<lambda>i. i \<notin> {12, 13, 14, 25, 27, 31, 32, 34, 35, 36, 38, 39, 40, 41})
                                  [0..<length v]))
     \<and> filter (\<lambda>i. i \<notin> {12, 13, 14, 25, 27, 31, 32, 34, 35, 36, 38, 39, 40, 41}) [0..<length s]
       = [0..<12] @ [15..<25] @ [26] @ [28..<31] @ [33] @ [37] @ [42..<length s]
     \<and> zip (map ((!) s) ([0..<12] @ [15..<25] @ [26] @ [28..<31] @ [33] @ [37] @ [42..<length s]))
           (map ((!) v) (filter (\<lambda>i. i \<notin> {12, 13, 14, 25, 27, 31, 32, 34, 35, 36, 38, 39, 40, 41})
                                [0..<length v]))
       = map (\<lambda>r. (s ! r, v ! r))
           ([0..<12] @ [15..<25] @ [26] @ [28..<31] @ [33] @ [37] @ [42..<length s])"
proof -
  let ?K = "[0..<12] @ [15..<25] @ [26] @ [28..<31] @ [33] @ [37] @ [42..<length s]"
  let ?D = "{12, 13, 14, 25, 27, 31, 32, 34, 35, 36, 38, 39, 40, 41::nat}"
  have kept: "filter (\<lambda>i. i \<notin> ?D) [0..<length s] = ?K"
    by (rule z_iso_pi_kept [OF assms(5)])
  have load: "load_z_iso_pi_data parse fs path
      = Inr (map ((!) s) ?K, map ((!) v) (filter (\<lambda>i. i \<notin> ?D) [0..<length v]))"
    using load_z_iso_pi_data_eval [OF assms] by (simp only: assms(4) kept)
  have "zip (map ((!) s) ?K) (map ((!) v) (filter (\<lambda>i. i \<notin> ?D) [0..<length v]))
      = map (\<lambda>r. (s ! r, v ! r)) ?K"
    unfolding assms(4) kept by (simp only: zip_map_map zip_same_conv_map map_map o_def split_conv)
  with load kept show ?thesis by blast
qed

theorem load_z_iso_pi_data_positions_witness:
  "read_csv example_parse example_fs ''photoswitches.csv'' = Inr example_df
   \<and> example_df ''SMILES'' = Some example_smiles
   \<and> example_df ''Z isomer pi-pi* wavelength in nm'' = Some example_vals
   \<and> length example_vals = length example_smiles \<and> 42 \<le> length example_smiles
   \<and> load_z_iso_pi_data example_parse example_fs ''photoswitches.csv''
       = Inr (map ((!) example_smiles)
               ([0..<12] @ [15..<25] @ [26] @ [28..<31] @ [33] @ [37] @ [42..<length example_smiles]),
              map ((!) example_vals)
               (filter (\<lambda>i. i \<notin> {12, 13, 14, 25, 27, 31, 32, 34, 35, 36, 38, 39, 40, 41})
                  [0..<length example_vals]))"
proof -
  have l: "length example_vals = length example_smiles" "42 \<le> length example_smiles"
    by (simp_all add: example_lengths)
  from load_z_iso_pi_data_positions [OF example_read example_columns(1,5) l]
  have "load_z_iso_pi_data example_parse example_fs ''photoswitches.csv''
       = Inr (map ((!) example_smiles)
               ([0..<12] @ [15..<25] @ [26] @ [28..<31] @ [33] @ [37] @ [42..<length example_smiles]),
              map ((!) example_vals)
               (filter (\<lambda>i. i \<notin> {12, 13, 14, 25, 27, 31, 32, 34, 35, 36, 38, 39, 40, 41})
                  [0..<length example_vals]))"
    by (rule conjunct1)
  then show ?thesis
    by (intro conjI example_read example_columns l)
qed

text \<open>
  Claim C3, as stated, says that \<^verbatim>\<open>load_e_iso_pi_data\<close> removes the target of the row
  whose identifier it removes. It does not on the table of 33 rows with the literal
  identifier in row 0: the identifier of row 0 and the target of row 31 are removed, and
  the first pair of the result joins the identifier of row 1 with the target of row 0.
\<close>

theorem load_e_iso_pi_data_misaligned:
  "read_csv shifted_parse example_fs ''photoswitches.csv'' = Inr shifted_df
   \<and> shifted_df ''SMILES'' = Some shifted_smiles
   \<and> shifted_df ''E isomer pi-pi* wavelength in nm'' = Some shifted_vals
   \<and> Str SMILES_literal \<in> set shifted_smiles \<and> 31 < length shifted_vals
   \<and> load_e_iso_pi_data shifted_parse example_fs ''photoswitches.csv''
       = Inr (drop 1 shifted_smiles, take 31 shifted_vals @ drop 32 shifted_vals)
   \<and> drop 1 shifted_smiles \<noteq> take 31 shifted_smiles @ drop 32 shifted_smiles
   \<and> (drop 1 shifted_smiles ! 0, (take 31 shifted_vals @ drop 32 shifted_vals) ! 0)
       = (Str ''C'', Val 0)
   \<and> (Str ''C'', Val 0) \<notin> set (zip shifted_smiles shifted_vals)"
proof -
  have r: "read_csv shifted_parse example_fs ''photoswitches.csv'' = Inr shifted_df"
    by (simp add: read_csv_def shifted_parse_def example_fs_def)
  have c: "shifted_df ''SMILES'' = Some shifted_smiles"
    "shifted_df ''E isomer pi-pi* wavelength in nm'' = Some shifted_vals"
    by (simp_all add: shifted_df_def)
  have m: "Str SMILES_literal \<in> set shifted_smiles"
    by (simp add: shifted_smiles_def)
  have l: "31 < length shifted_vals"
    by (simp add: shifted_vals_def)
  have rm: "list_remove (Str SMILES_literal) shifted_smiles = Inr (drop 1 shifted_smiles)"
    by (simp add: shifted_smiles_def)
  note load = load_e_iso_pi_data_eval [OF r c rm l]
  have d: "drop 1 shifted_smiles \<noteq> take 31 shifted_smiles @ drop 32 shifted_smiles"
    by code_simp
  have p: "(drop 1 shifted_smiles ! 0, (take 31 shifted_vals @ drop 32 shifted_vals) ! 0)
      = (Str ''C'', Val 0)"
    by code_simp
  have n: "(Str ''C'', Val 0) \<notin> set (zip shifted_smiles shifted_vals)"
    by code_simp
  show ?thesis
    by (intro conjI r c m l load d p n)
qed

text \<open>
  Claim C3, amended. On a table whose \<^verbatim>\<open>SMILES\<close> column has the literal identifier
  and whose property column has more than 31 rows, \<^verbatim>\<open>load_e_iso_pi_data\<close> removes one
  element of each sequence: the first row \<open>i\<close> with that identifier from the identifiers,
  and position 31 of the property column as it was read from the targets. All other
  elements are returned in their order. When \<open>i\<close> is 31 the target removed is the target
  of the identifier removed, and the two results stay row by row in step.
\<close>

theorem load_e_iso_pi_data_removed_rows:
  assumes "read_csv parse fs path = Inr df"
    and "df ''SMILES'' = Some s"
    and "df ''E isomer pi-pi* wavelength in nm'' = Some v"
    and "length v = length s" and "31 < length v"
    and "Str SMILES_literal \<in> set s"
  shows "\<exists>i<length s. s ! i = Str SMILES_literal \<and> (\<forall>j<i. s ! j \<noteq> Str SMILES_literal)
      \<and> load_e_iso_pi_data parse fs path
          = Inr (map ((!) s) (filter (\<lambda>r. r \<noteq> i) [0..<length s]),
                 map ((!) v) (filter (\<lambda>r. r \<noteq> 31) [0..<length v]))
      \<and> (i = 31 \<longrightarrow>
           zip (map ((!) s) (filter (\<lambda>r. r \<noteq> i) [0..<length s]))
               (map ((!) v) (filter (\<lambda>r. r \<noteq> 31) [0..<length v]))
           = map (\<lambda>r. (s ! r, v ! r)) (filter (\<lambda>r. r \<noteq> 31) [0..<length s]))"
proof -
  from list_remove_first [OF assms(6)]
  obtain i where i: "i < length s" "s ! i = Str SMILES_literal"
    "\<forall>j<i. s ! j \<noteq> Str SMILES_literal"
    "list_remove (Str SMILES_literal) s = Inr (take i s @ drop (Suc i) s)"
    by blast
  have "load_e_iso_pi_data parse fs path = Inr (take i s @ drop (Suc i) s, take 31 v @ drop 32 v)"
    by (rule load_e_iso_pi_data_eval [OF assms(1,2,3) i(4) assms(5)])
  then have load: "load_e_iso_pi_data parse fs path
      = Inr (map ((!) s) (filter (\<lambda>r. r \<noteq> i) [0..<length s]),
             map ((!) v) (filter (\<lambda>r. r \<noteq> 31) [0..<length v]))"
    using skip_one_nth [OF i(1)] skip_one_nth [OF assms(5)] by simp
  have "i = 31 \<longrightarrow>
      zip (map ((!) s) (filter (\<lambda>r. r \<noteq> i) [0..<length s]))
          (map ((!) v) (filter (\<lambda>r. r \<noteq> 31) [0..<length v]))
      = map (\<lambda>r. (s ! r, v ! r)) (filter (\<lambda>r. r \<noteq> 31) [0..<length s])"
    by (simp add: assms(4) zip_map_map zip_same_conv_map)
  with i(1,2,3) load show ?thesis by blast
qed

theorem load_e_iso_pi_data_removed_rows_witness:
  "read_csv example_parse example_fs ''photoswitches.csv'' = Inr example_df
   \<and> example_df ''SMILES'' = Some example_smiles
   \<and> example_df ''E isomer pi-pi* wavelength in nm'' = Some example_vals
   \<and> length example_vals = length example_smiles \<and> 31 < length example_vals
   \<and> Str SMILES_literal \<in> set example_smiles
   \<and> load_e_iso_pi_data example_parse example_fs ''photoswitches.csv''
       = Inr (map ((!) example_smiles) (filter (\<lambda>r. r \<noteq> 31) [0..<length example_smiles]),
              map ((!) example_vals) (filter (\<lambda>r. r \<noteq> 31) [0..<length example_vals]))
   \<and> zip (map ((!) example_smiles) (filter (\<lambda>r. r \<noteq> 31) [0..<length example_smiles]))
         (map ((!) example_vals) (filter (\<lambda>r. r \<noteq> 31) [0..<length example_vals]))
       = map (\<lambda>r. (example_smiles ! r, example_vals ! r))
           (filter (\<lambda>r. r \<noteq> 31) [0..<length example_smiles])"
proof -
  have l: "length example_vals = length example_smiles" "31 < length example_vals"
    by (simp_all add: example_lengths)
  from load_e_iso_pi_data_removed_rows [OF example_read example_columns(1,3) l example_literal]
  obtain i where i: "i < length example_smiles" "example_smiles ! i = Str SMILES_literal"
    "load_e_iso_pi_data example_parse example_fs ''photoswitches.csv''
       = Inr (map ((!) example_smiles) (filter (\<lambda>r. r \<noteq> i) [0..<length example_smiles]),
              map ((!) example_vals) (filter (\<lambda>r. r \<noteq> 31) [0..<length example_vals]))"
    "i = 31 \<longrightarrow>
       zip (map ((!) example_smiles) (filter (\<lambda>r. r \<noteq> i) [0..<length example_smiles]))
           (map ((!) example_vals) (filter (\<lambda>r. r \<noteq> 31) [0..<length example_vals]))
       = map (\<lambda>r. (example_smiles ! r, example_vals ! r))
           (filter (\<lambda>r. r \<noteq> 31) [0..<length example_smiles])"
    by blast
  have "i = 31"
    using i(1,2) example_smiles_nth [of i] example_id_literal [of i]
    by (simp add: example_lengths)
  with i(3,4) show ?thesis
    by (intro conjI example_read example_columns(1,3) l example_literal) simp_all
qed

text \<open>
  Claim C4. For a table with at least 65 rows, \<^verbatim>\<open>load_thermal_data\<close> returns the
  identifiers of rows 0 to 64 and the target values of rows 0 to 64, in row order:
  element \<open>i\<close> of either sequence is row \<open>i\<close> of the table, so no row at position 65
  or beyond is returned.
\<close>

theorem load_thermal_data_first_65:
  assumes "read_csv parse fs path = Inr df"
    and "df ''SMILES'' = Some s"
    and "df ''rate of thermal isomerisation from Z-E in s-1'' = Some v"
    and "length v = length s" and "65 \<le> length s"
  shows "load_thermal_data parse fs path = Inr (map ((!) s) [0..<65], map ((!) v) [0..<65])"
proof -
  have "py_slice s 0 65 = map ((!) s) [0..<65]" "py_slice v 0 65 = map ((!) v) [0..<65]"
    using assms(4,5) by (simp_all add: py_slice_nth)
  then show ?thesis
    unfolding load_thermal_data_def
    by (simp add: assms(1,2,3) err_bind_Inr getitem_def)
qed

theorem load_thermal_data_first_65_witness:
  "read_csv example_parse example_fs ''photoswitches.csv'' = Inr example_df
   \<and> example_df ''SMILES'' = Some example_smiles
   \<and> example_df ''rate of thermal isomerisation from Z-E in s-1'' = Some example_vals
   \<and> length example_vals = length example_smiles \<and> 65 \<le> length example_smiles
   \<and> load_thermal_data example_parse example_fs ''photoswitches.csv''
       = Inr (map ((!) example_smiles) [0..<65], map ((!) example_vals) [0..<65])"
proof -
  have l: "length example_vals = length example_smiles" "65 \<le> length example_smiles"
    by (simp_all add: example_lengths)
  show ?thesis
    by (intro conjI example_read example_columns l
        load_thermal_data_first_65 [OF example_read example_columns(1,2) l])
qed

text \<open>
  Claim C8. Two calls of one loader on the same path, in worlds that hold the same file
  contents at that path, return the same identifier sequence and the same target
  sequence, or raise the same exception, whatever else the two worlds hold: other files,
  other objects. This holds for the second of two calls in a row, because a call retains
  nothing: it leaves every file as it was and every object that existed before as it was;
  the list it changes in place is one that it made itself.
\<close>

theorem loaders_repeatable:
  assumes "files w' path = files w path"
  shows "list_all
      (\<lambda>load. returned load path w' = returned load path w
          \<and> returned load path (world_after load path w) = returned load path w
          \<and> files (world_after load path w) = files w
          \<and> take (length (heap w)) (heap (world_after load path w)) = heap w)
      [load_thermal_data_st parse, load_e_iso_pi_data_st parse, load_e_iso_n_data_st parse,
       load_z_iso_pi_data_st parse, load_z_iso_n_data_st parse]"
proof -
  note same = loaders_read_path_only [where fs = "files w'" and fs' = "files w" and path = path
      and parse = parse, OF assms]
  have t: "returned (load_thermal_data_st parse) path w' = returned (load_thermal_data_st parse) path w
      \<and> returned (load_thermal_data_st parse) path (world_after (load_thermal_data_st parse) path w)
          = returned (load_thermal_data_st parse) path w"
    using load_thermal_data_st_run [of parse path] same(1) by simp
  have ep: "returned (load_e_iso_pi_data_st parse) path w' = returned (load_e_iso_pi_data_st parse) path w
      \<and> returned (load_e_iso_pi_data_st parse) path (world_after (load_e_iso_pi_data_st parse) path w)
          = returned (load_e_iso_pi_data_st parse) path w"
    using load_e_iso_pi_data_st_run [of parse path] same(2) by simp
  have en: "returned (load_e_iso_n_data_st parse) path w' = returned (load_e_iso_n_data_st parse) path w
      \<and> returned (load_e_iso_n_data_st parse) path (world_after (load_e_iso_n_data_st parse) path w)
          = returned (load_e_iso_n_data_st parse) path w"
    using load_e_iso_n_data_st_run [of parse path] same(3) by simp
  have zp: "returned (load_z_iso_pi_data_st parse) path w' = returned (load_z_iso_pi_data_st parse) path w
      \<and> returned (load_z_iso_pi_data_st parse) path (world_after (load_z_iso_pi_data_st parse) path w)
          = returned (load_z_iso_pi_data_st parse) path w"
    using load_z_iso_pi_data_st_run [of parse path] same(4) by simp
  have zn: "returned (load_z_iso_n_data_st parse) path w' = returned (load_z_iso_n_data_st parse) path w
      \<and> returned (load_z_iso_n_data_st parse) path (world_after (load_z_iso_n_data_st parse) path w)
          = returned (load_z_iso_n_data_st parse) path w"
    using load_z_iso_n_data_st_run [of parse path] same(5) by simp
  show ?thesis
    using t ep en zp zn load_thermal_data_st_run [of parse path w]
      load_e_iso_pi_data_st_run [of parse path w] load_e_iso_n_data_st_run [of parse path w]
      load_z_iso_pi_data_st_run [of parse path w] load_z_iso_n_data_st_run [of parse path w]
    by simp
qed

theorem loaders_repeatable_witness:
  "files later_world ''photoswitches.csv'' = files example_world ''photoswitches.csv''
   \<and> heap later_world \<noteq> heap example_world \<and> files later_world \<noteq> files example_world
   \<and> list_all
      (\<lambda>load. returned load ''photoswitches.csv'' later_world
            = returned load ''photoswitches.csv'' example_world
          \<and> returned load ''photoswitches.csv'' (world_after load ''photoswitches.csv'' example_world)
            = returned load ''photoswitches.csv'' example_world
          \<and> files (world_after load ''photoswitches.csv'' example_world) = files example_world
          \<and> take (length (heap example_world))
               (heap (world_after load ''photoswitches.csv'' example_world)) = heap example_world)
      [load_thermal_data_st example_parse, load_e_iso_pi_data_st example_parse,
       load_e_iso_n_data_st example_parse, load_z_iso_pi_data_st example_parse,
       load_z_iso_n_data_st example_parse]
   \<and> returned (load_thermal_data_st example_parse) ''photoswitches.csv'' example_world
       = Inr (take 65 example_smiles, take 65 example_vals)"
proof -
  have h: "files later_world ''photoswitches.csv'' = files example_world ''photoswitches.csv''"
    by (simp add: later_world_def example_world_def)
  have d: "heap later_world \<noteq> heap example_world"
    by (simp add: later_world_def example_world_def)
  have "files later_world ''notes.txt'' \<noteq> files example_world ''notes.txt''"
    by (simp add: later_world_def example_world_def example_fs_def)
  then have f: "files later_world \<noteq> files example_world"
    by metis
  have "read_csv example_parse (files example_world) ''photoswitches.csv'' = Inr example_df"
    using example_read by (simp add: example_world_def)
  from load_thermal_data_eval [OF this example_columns(1,2)]
  have r: "returned (load_thermal_data_st example_parse) ''photoswitches.csv'' example_world
      = Inr (take 65 example_smiles, take 65 example_vals)"
    by (simp add: load_thermal_data_st_run)
  show ?thesis
    by (intro conjI h d f r loaders_repeatable [OF h])
qed

text \<open>
  Claim C9. When the table has a \<^verbatim>\<open>SMILES\<close> column without the literal identifier,
  \<^verbatim>\<open>load_e_iso_pi_data\<close> raises \<^verbatim>\<open>ValueError\<close>. When the identifier occurs, once
  or more often, only its first occurrence is removed (one occurrence fewer remains),
  and the target at position 31 is deleted once: the targets are one fewer.
\<close>

theorem load_e_iso_pi_data_remove:
  assumes "read_csv parse fs path = Inr df" and "df ''SMILES'' = Some s"
  shows "(Str SMILES_literal \<notin> set s \<longrightarrow> load_e_iso_pi_data parse fs path = Inl ValueError)
     \<and> (Str SMILES_literal \<in> set s \<and> df ''E isomer pi-pi* wavelength in nm'' = Some v
          \<and> 31 < length v
        \<longrightarrow> (\<exists>i<length s. s ! i = Str SMILES_literal \<and> (\<forall>j<i. s ! j \<noteq> Str SMILES_literal)
               \<and> load_e_iso_pi_data parse fs path
                   = Inr (take i s @ drop (Suc i) s, take 31 v @ drop 32 v)
               \<and> count_list (take i s @ drop (Suc i) s) (Str SMILES_literal)
                   = count_list s (Str SMILES_literal) - 1
               \<and> length (take 31 v @ drop 32 v) = length v - 1))"
proof (intro conjI impI)
  assume "Str SMILES_literal \<notin> set s"
  then have "list_remove (Str SMILES_literal) s = Inl ValueError"
    by (rule list_remove_absent)
  then show "load_e_iso_pi_data parse fs path = Inl ValueError"
    unfolding load_e_iso_pi_data_def
    by (simp add: assms err_bind_Inr err_bind_Inl getitem_def)
next
  assume h: "Str SMILES_literal \<in> set s \<and> df ''E isomer pi-pi* wavelength in nm'' = Some v
      \<and> 31 < length v"
  from list_remove_first [of "Str SMILES_literal" s] h
  obtain i where i: "i < length s" "s ! i = Str SMILES_literal"
    "\<forall>j<i. s ! j \<noteq> Str SMILES_literal"
    "list_remove (Str SMILES_literal) s = Inr (take i s @ drop (Suc i) s)"
    by blast
  have load: "load_e_iso_pi_data parse fs path = Inr (take i s @ drop (Suc i) s, take 31 v @ drop 32 v)"
    using load_e_iso_pi_data_eval [OF assms _ i(4)] h by blast
  have "take i s @ drop (Suc i) s = remove1 (Str SMILES_literal) s"
    using i(4) h by (simp add: list_remove_remove1)
  then have cnt: "count_list (take i s @ drop (Suc i) s) (Str SMILES_literal)
      = count_list s (Str SMILES_literal) - 1"
    using h by (simp add: count_list_remove1)
  have len: "length (take 31 v @ drop 32 v) = length v - 1"
    using h by simp
  from i(1,2,3) load cnt len
  show "\<exists>i<length s. s ! i = Str SMILES_literal \<and> (\<forall>j<i. s ! j \<noteq> Str SMILES_literal)
      \<and> load_e_iso_pi_data parse fs path = Inr (take i s @ drop (Suc i) s, take 31 v @ drop 32 v)
      \<and> count_list (take i s @ drop (Suc i) s) (Str SMILES_literal)
          = count_list s (Str SMILES_literal) - 1
      \<and> length (take 31 v @ drop 32 v) = length v - 1"
    by blast
qed

theorem load_e_iso_pi_data_remove_witness:
  "read_csv plain_parse example_fs ''photoswitches.csv'' = Inr plain_df
   \<and> plain_df ''SMILES'' = Some plain_smiles
   \<and> Str SMILES_literal \<notin> set plain_smiles
   \<and> load_e_iso_pi_data plain_parse example_fs ''photoswitches.csv'' = Inl ValueError
   \<and> read_csv twice_parse example_fs ''photoswitches.csv'' = Inr twice_df
   \<and> twice_df ''SMILES'' = Some twice_smiles
   \<and> Str SMILES_literal \<in> set twice_smiles
   \<and> twice_df ''E isomer pi-pi* wavelength in nm'' = Some twice_vals
   \<and> 31 < length twice_vals
   \<and> count_list twice_smiles (Str SMILES_literal) = 2
   \<and> load_e_iso_pi_data twice_parse example_fs ''photoswitches.csv''
       = Inr (take 31 twice_smiles @ drop 32 twice_smiles, take 31 twice_vals @ drop 32 twice_vals)
   \<and> count_list (take 31 twice_smiles @ drop 32 twice_smiles) (Str SMILES_literal) = 1
   \<and> length (take 31 twice_vals @ drop 32 twice_vals) = length twice_vals - 1"
proof -
  have r: "read_csv plain_parse example_fs ''photoswitches.csv'' = Inr plain_df"
    by (simp add: read_csv_def plain_parse_def example_fs_def)
  have c: "plain_df ''SMILES'' = Some plain_smiles"
    by (simp add: plain_df_def)
  have a: "Str SMILES_literal \<notin> set plain_smiles"
    by (simp add: plain_smiles_def SMILES_literal_def)
  from load_e_iso_pi_data_remove [OF r c] a
  have e: "load_e_iso_pi_data plain_parse example_fs ''photoswitches.csv'' = Inl ValueError"
    by blast
  have r2: "read_csv twice_parse example_fs ''photoswitches.csv'' = Inr twice_df"
    by (simp add: read_csv_def twice_parse_def example_fs_def)
  have c2: "twice_df ''SMILES'' = Some twice_smiles"
    "twice_df ''E isomer pi-pi* wavelength in nm'' = Some twice_vals"
    by (simp_all add: twice_df_def)
  have m: "Str SMILES_literal \<in> set twice_smiles"
    by (simp add: twice_smiles_def)
  have l: "31 < length twice_vals"
    by (simp add: twice_vals_def)
  from load_e_iso_pi_data_remove [OF r2 c2(1), of twice_vals] m c2(2) l
  obtain i where i: "i < length twice_smiles" "twice_smiles ! i = Str SMILES_literal"
    "\<forall>j<i. twice_smiles ! j \<noteq> Str SMILES_literal"
    "load_e_iso_pi_data twice_parse example_fs ''photoswitches.csv''
       = Inr (take i twice_smiles @ drop (Suc i) twice_smiles, take 31 twice_vals @ drop 32 twice_vals)"
    "count_list (take i twice_smiles @ drop (Suc i) twice_smiles) (Str SMILES_literal)
       = count_list twice_smiles (Str SMILES_literal) - 1"
    "length (take 31 twice_vals @ drop 32 twice_vals) = length twice_vals - 1"
    by blast
  have "i = 31" by (rule twice_first [OF i(1,2,3)])
  with i(4,5) twice_count
  have p: "load_e_iso_pi_data twice_parse example_fs ''photoswitches.csv''
       = Inr (take 31 twice_smiles @ drop 32 twice_smiles, take 31 twice_vals @ drop 32 twice_vals)"
    "count_list (take 31 twice_smiles @ drop 32 twice_smiles) (Str SMILES_literal) = 1"
    by simp_all
  show ?thesis
    by (intro conjI r c a e r2 c2 m l twice_count p i(6))
qed


section \<open>\<^verbatim>\<open>transform_data\<close>\<close>

text \<open>
  Claim C5. In a call of \<^verbatim>\<open>transform_data\<close> that returns, the feature scaler holds
  the column means and the column standard deviations of \<open>X_train\<close>. Two calls that
  return and agree on everything but \<open>X_test\<close> and \<open>y_test\<close> fit the same feature
  scaler and return the same scaled training features, the same scaled training targets
  and the same target scaler.
\<close>

theorem transform_data_no_leakage:
  assumes "transform_data_locals sklearn X_train y_train X_test y_test n_components use_pca = Inr l"
    and "transform_data_locals sklearn X_train y_train X_test' y_test' n_components use_pca = Inr l'"
  shows "scaler_mean (x_scaler l) = map (\<lambda>j. mean (column X_train j)) [0..<n_features X_train]
     \<and> scaler_scale (x_scaler l) = map (\<lambda>j. std (column X_train j)) [0..<n_features X_train]
     \<and> x_scaler l' = x_scaler l
     \<and> transform_data sklearn X_train y_train X_test y_test n_components use_pca
         = Inr (X_train_scaled l, y_train_scaled l, X_test_scaled l, y_test_scaled l, y_scaler l)
     \<and> transform_data sklearn X_train y_train X_test' y_test' n_components use_pca
         = Inr (X_train_scaled l, y_train_scaled l, X_test_scaled l', y_test_scaled l', y_scaler l)"
proof -
  note a = transform_data_locals_Inr [OF assms(1)]
  note b = transform_data_locals_Inr [OF assms(2)]
  from a(1) have "x_scaler l
      = \<lparr>scaler_mean = map (\<lambda>j. mean (column X_train j)) [0..<n_features X_train],
         scaler_scale = map (\<lambda>j. std (column X_train j)) [0..<n_features X_train]\<rparr>"
    by (auto simp: StandardScaler_fit_def split: if_splits)
  then have fit: "scaler_mean (x_scaler l) = map (\<lambda>j. mean (column X_train j)) [0..<n_features X_train]"
    "scaler_scale (x_scaler l) = map (\<lambda>j. std (column X_train j)) [0..<n_features X_train]"
    by simp_all
  from a(1) b(1) have xs: "x_scaler l' = x_scaler l" by simp
  from a(2) b(2) have ys: "y_scaler l' = y_scaler l" by simp
  from a(3) b(3) ys have yt: "y_train_scaled l' = y_train_scaled l" by simp
  from a(5) b(5) xs have Xt: "X_train_scaled l' = X_train_scaled l"
    by (cases use_pca) auto
  have r: "transform_data sklearn X_train y_train X_test y_test n_components use_pca
      = Inr (X_train_scaled l, y_train_scaled l, X_test_scaled l, y_test_scaled l, y_scaler l)"
    by (simp add: transform_data_Inr assms(1))
  have "transform_data sklearn X_train y_train X_test' y_test' n_components use_pca
      = Inr (X_train_scaled l', y_train_scaled l', X_test_scaled l', y_test_scaled l', y_scaler l')"
    by (simp add: transform_data_Inr assms(2))
  with fit xs r show ?thesis
    by (simp only: ys yt Xt simp_thms)
qed

theorem transform_data_no_leakage_witness:
  "transform_data_locals leading_columns [[1, 2], [3, 4]] [1, 3] [[5, 6]] [2] None False
     = Inr \<lparr>x_scaler = \<lparr>scaler_mean = [2, 3], scaler_scale = [1, 1]\<rparr>,
            y_scaler = \<lparr>scaler_mean = [2], scaler_scale = [1]\<rparr>,
            X_train_scaled = [[-1, -1], [1, 1]], y_train_scaled = [[-1], [1]],
            X_test_scaled = [[3, 3]], y_test_scaled = [[0]], stdout = []\<rparr>
   \<and> transform_data_locals leading_columns [[1, 2], [3, 4]] [1, 3] [[0, 0], [2, 3]] [7, 8] None False
     = Inr \<lparr>x_scaler = \<lparr>scaler_mean = [2, 3], scaler_scale = [1, 1]\<rparr>,
            y_scaler = \<lparr>scaler_mean = [2], scaler_scale = [1]\<rparr>,
            X_train_scaled = [[-1, -1], [1, 1]], y_train_scaled = [[-1], [1]],
            X_test_scaled = [[-2, -3], [0, 0]], y_test_scaled = [[5], [6]], stdout = []\<rparr>
   \<and> map (\<lambda>j. mean (column [[1, 2], [3, 4]] j)) [0..<n_features [[1, 2], [3, 4]]] = [2, 3]
   \<and> map (\<lambda>j. std (column [[1, 2], [3, 4]] j)) [0..<n_features [[1, 2], [3, 4]]] = [1, 1]
   \<and> transform_data leading_columns [[1, 2], [3, 4]] [1, 3] [[5, 6]] [2] None False
       = Inr ([[-1, -1], [1, 1]], [[-1], [1]], [[3, 3]], [[0]],
              \<lparr>scaler_mean = [2], scaler_scale = [1]\<rparr>)
   \<and> transform_data leading_columns [[1, 2], [3, 4]] [1, 3] [[0, 0], [2, 3]] [7, 8] None False
       = Inr ([[-1, -1], [1, 1]], [[-1], [1]], [[-2, -3], [0, 0]], [[5], [6]],
              \<lparr>scaler_mean = [2], scaler_scale = [1]\<rparr>)"
proof -
  note T = transform_data_no_leakage [OF example_run example_run']
  from T [THEN conjunct1]
  have m: "map (\<lambda>j. mean (column [[1, 2], [3, 4]] j)) [0..<n_features [[1, 2], [3, 4]]] = [2, 3]"
    by simp
  from T [THEN conjunct2, THEN conjunct1]
  have s: "map (\<lambda>j. std (column [[1, 2], [3, 4]] j)) [0..<n_features [[1, 2], [3, 4]]] = [1, 1]"
    by simp
  from T [THEN conjunct2, THEN conjunct2, THEN conjunct2, THEN conjunct1]
  have r: "transform_data leading_columns [[1, 2], [3, 4]] [1, 3] [[5, 6]] [2] None False
       = Inr ([[-1, -1], [1, 1]], [[-1], [1]], [[3, 3]], [[0]],
              \<lparr>scaler_mean = [2], scaler_scale = [1]\<rparr>)"
    by simp
  from T [THEN conjunct2, THEN conjunct2, THEN conjunct2, THEN conjunct2]
  have r': "transform_data leading_columns [[1, 2], [3, 4]] [1, 3] [[0, 0], [2, 3]] [7, 8] None False
       = Inr ([[-1, -1], [1, 1]], [[-1], [1]], [[-2, -3], [0, 0]], [[5], [6]],
              \<lparr>scaler_mean = [2], scaler_scale = [1]\<rparr>)"
    by simp
  show ?thesis
    by (intro conjI example_run example_run' m s r r')
qed

text \<open>
  Claim C6. When \<open>y_train\<close> has a standard deviation that is not zero, the inverse
  transform of the returned target scaler, applied to the returned scaled training
  targets, gives back \<open>y_train\<close>, one value in each row; the equation is exact, in real
  arithmetic.
\<close>

theorem y_scaler_round_trip:
  assumes "transform_data sklearn X_train y_train X_test y_test n_components use_pca
      = Inr (X_train_scaled', y_train_scaled', X_test_scaled', y_test_scaled', y_scaler')"
    and "std y_train \<noteq> 0"
  shows "StandardScaler_inverse_transform y_scaler' y_train_scaled' = Inr (reshape_column y_train)
     \<and> concat (reshape_column y_train) = y_train"
proof -
  from assms(1) obtain l where l:
    "transform_data_locals sklearn X_train y_train X_test y_test n_components use_pca = Inr l"
    "y_train_scaled' = y_train_scaled l" "y_scaler' = y_scaler l"
    by (auto simp: transform_data_Inr)
  note t = transform_data_locals_targets [OF l(1)]
  have "StandardScaler_inverse_transform y_scaler' y_train_scaled'
      = Inr (map (\<lambda>v. [(v - mean y_train) / std y_train * std y_train + mean y_train]) y_train)"
    unfolding l(2,3) t(2,3) by (rule StandardScaler_inverse_transform_column)
  also have "\<dots> = Inr (reshape_column y_train)"
    using assms(2) by (simp add: reshape_column_def)
  finally have "StandardScaler_inverse_transform y_scaler' y_train_scaled' = Inr (reshape_column y_train)" .
  moreover have "concat (reshape_column y_train) = y_train"
    by (induction y_train) (simp_all add: reshape_column_def)
  ultimately show ?thesis by simp
qed

theorem y_scaler_round_trip_witness:
  "transform_data leading_columns [[1, 2], [3, 4]] [1, 3] [[5, 6]] [2] None False
     = Inr ([[-1, -1], [1, 1]], [[-1], [1]], [[3, 3]], [[0]],
            \<lparr>scaler_mean = [2], scaler_scale = [1]\<rparr>)
   \<and> std [1, 3] \<noteq> 0
   \<and> StandardScaler_inverse_transform \<lparr>scaler_mean = [2], scaler_scale = [1]\<rparr> [[-1], [1]]
       = Inr [[1], [3]]"
proof -
  have s: "std [1, 3] \<noteq> 0"
    by (simp add: std_def mean_def)
  from y_scaler_round_trip [OF example_return s] example_return s show ?thesis
    by (simp add: reshape_column_def)
qed

text \<open>
  Claim C10. The scaled targets that \<^verbatim>\<open>transform_data\<close> returns are matrices with
  one column: one row of length one for each element of \<open>y_train\<close> and of \<open>y_test\<close>,
  where the inputs are vectors. The reshape is not undone.
\<close>

theorem transform_data_targets_two_dimensional:
  assumes "transform_data sklearn X_train y_train X_test y_test n_components use_pca
      = Inr (X_train_scaled', y_train_scaled', X_test_scaled', y_test_scaled', y_scaler')"
  shows "map length y_train_scaled' = replicate (length y_train) 1
     \<and> map length y_test_scaled' = replicate (length y_test) 1"
proof -
  from assms obtain l where l:
    "transform_data_locals sklearn X_train y_train X_test y_test n_components use_pca = Inr l"
    "y_train_scaled' = y_train_scaled l" "y_test_scaled' = y_test_scaled l"
    by (auto simp: transform_data_Inr)
  note t = transform_data_locals_targets [OF l(1)]
  show ?thesis
    unfolding l(2,3) t(3,4) by (simp add: o_def map_replicate_const)
qed

theorem transform_data_targets_two_dimensional_witness:
  "transform_data leading_columns [[1, 2], [3, 4]] [1, 3] [[5, 6]] [2] None False
     = Inr ([[-1, -1], [1, 1]], [[-1], [1]], [[3, 3]], [[0]],
            \<lparr>scaler_mean = [2], scaler_scale = [1]\<rparr>)
   \<and> map length [[-1], [1::real]] = replicate (length [1, 3::real]) 1
   \<and> map length [[0::real]] = replicate (length [2::real]) 1"
  using transform_data_targets_two_dimensional [OF example_return] example_return
  by blast

end
